theory Spec2Isabelle
  imports Complex_Main "HOL-Library.AList"
begin

section \<open>Values read from the environment\<close>

text \<open>
  JavaScript truthiness of a string that may be missing: \<^verbatim>\<open>undefined\<close>, \<^verbatim>\<open>null\<close> and
  \<^verbatim>\<open>""\<close> are falsy.
\<close>

definition truthy_field :: "'a list option \<Rightarrow> bool" where
  "truthy_field f = (case f of None \<Rightarrow> False | Some v \<Rightarrow> v \<noteq> [])"

subsection \<open>Numbers read from strings\<close>

text \<open>
  A Number as \<^verbatim>\<open>===\<close> tells them apart: \<^verbatim>\<open>NaN\<close>, the two infinities, or a finite
  double, given by its exact value (\<^verbatim>\<open>+0\<close> and \<^verbatim>\<open>-0\<close> are both \<open>Finite 0\<close>).
\<close>

datatype jsnumber = NaN | PosInfinity | NegInfinity | Finite rat

text \<open>
  A string handed to \<^verbatim>\<open>parseFloat\<close> is the list of its UTF-16 code units; \<open>utf16\<close> writes
  one from ASCII text.
\<close>

definition utf16 :: "string \<Rightarrow> nat list" where
  "utf16 cs = map of_char cs"

text \<open>
  The white space and line terminators \<^verbatim>\<open>parseFloat\<close> skips: tab, line feed, vertical
  tab, form feed, carriage return, space, no-break space, the other space separators
  (U+1680, U+2000 to U+200A, U+202F, U+205F, U+3000), the line and paragraph separators
  and the byte order mark.
\<close>

definition isWhiteSpace :: "nat \<Rightarrow> bool" where
  "isWhiteSpace c =
     (c \<in> set [0x09, 0x0A, 0x0B, 0x0C, 0x0D, 0x20, 0xA0, 0x1680, 0x2028, 0x2029, 0x202F,
                0x205F, 0x3000, 0xFEFF] \<or> (0x2000 \<le> c \<and> c \<le> 0x200A))"

definition isDigit :: "nat \<Rightarrow> bool" where
  "isDigit c = (48 \<le> c \<and> c \<le> 57)"

definition digitsValue :: "nat list \<Rightarrow> int" where
  "digitsValue ds = foldl (\<lambda>n c. 10 * n + (int c - 48)) 0 ds"

text \<open>
  Rounding the positive fraction \<open>a / b\<close> to the nearest double, ties to even: \<open>bits\<close> is
  the length of a number in binary, \<open>floorLog2\<close> the binary exponent of the fraction, and
  the fraction is rounded to a multiple of \<open>2 ^ k\<close>, where \<open>k\<close> leaves 53 bits to a normal
  number and is \<open>- 1074\<close> for a subnormal one. \<open>None\<close> is the overflow to infinity.
\<close>

function bits :: "int \<Rightarrow> nat" where
  "bits n = (if n \<le> 0 then 0 else Suc (bits (n div 2)))"
  by pat_completeness auto
termination
  by (relation "measure nat") auto

declare bits.simps [simp del]

definition floorLog2 :: "int \<Rightarrow> int \<Rightarrow> int" where
  "floorLog2 a b =
     (let e0 = int (bits a) - int (bits b)
      in if b * 2 ^ nat e0 \<le> a * 2 ^ nat (- e0) then e0 else e0 - 1)"

definition roundHalfEven :: "int \<Rightarrow> int \<Rightarrow> int" where
  "roundHalfEven n d =
     (let q = n div d; r = n mod d
      in if 2 * r < d then q else if d < 2 * r then q + 1 else if even q then q else q + 1)"

definition scale2 :: "int \<Rightarrow> int \<Rightarrow> rat" where
  "scale2 n k = (if 0 \<le> k then of_int n * 2 ^ nat k else of_int n / 2 ^ nat (- k))"

definition roundDouble :: "int \<Rightarrow> int \<Rightarrow> rat option" where
  "roundDouble a b =
     (if a = 0 then Some 0
      else
        (let k = max (floorLog2 a b) (- 1022) - 52;
             n = roundHalfEven (a * 2 ^ nat (- k)) (b * 2 ^ nat k)
         in if 2 ^ 1024 \<le> scale2 n k then None else Some (scale2 n k)))"

text \<open>The Number denoted by the decimal digits \<open>m\<close> times ten to the \<open>x\<close>, with its sign.\<close>

definition numericValue :: "bool \<Rightarrow> int \<Rightarrow> int \<Rightarrow> jsnumber" where
  "numericValue neg m x =
     (case roundDouble (m * 10 ^ nat x) (10 ^ nat (- x)) of
        None \<Rightarrow> if neg then NegInfinity else PosInfinity
      | Some q \<Rightarrow> Finite (if neg then - q else q))"

text \<open>
  The built-in \<^verbatim>\<open>parseFloat\<close>: leading white space is skipped, then the longest prefix
  that is a decimal literal (sign, \<^verbatim>\<open>Infinity\<close> or digits with an optional fraction and
  exponent) is read; when there is no such prefix the result is \<^verbatim>\<open>NaN\<close>.
\<close>

definition exponentPart :: "nat list \<Rightarrow> int" where
  "exponentPart r =
     (case r of
        [] \<Rightarrow> 0
      | c # r1 \<Rightarrow>
          if c = of_char CHR ''e'' \<or> c = of_char CHR ''E'' then
            (case r1 of
               [] \<Rightarrow> 0
             | g # r2 \<Rightarrow>
                 if g = of_char CHR ''-'' then - digitsValue (takeWhile isDigit r2)
                 else if g = of_char CHR ''+'' then digitsValue (takeWhile isDigit r2)
                 else digitsValue (takeWhile isDigit r1))
          else 0)"

definition parseFloat :: "nat list \<Rightarrow> jsnumber" where
  "parseFloat inputString =
     (let trimmed = dropWhile isWhiteSpace inputString;
          neg = (take 1 trimmed = utf16 ''-'');
          u = (if take 1 trimmed = utf16 ''-'' \<or> take 1 trimmed = utf16 ''+''
               then drop 1 trimmed else trimmed)
      in if take 8 u = utf16 ''Infinity'' then (if neg then NegInfinity else PosInfinity)
         else
           (let ip = takeWhile isDigit u;
                r1 = dropWhile isDigit u;
                fp = (if take 1 r1 = utf16 ''.'' then takeWhile isDigit (drop 1 r1) else []);
                r2 = (if take 1 r1 = utf16 ''.'' then dropWhile isDigit (drop 1 r1) else r1)
            in if ip = [] \<and> fp = [] then NaN
               else numericValue neg (digitsValue (ip @ fp))
                      (exponentPart r2 - int (length fp))))"

text \<open>
  The text begins a number: after white space and an optional sign comes \<^verbatim>\<open>Infinity\<close>, a
  digit, or a point and a digit.
\<close>

definition beginsNumber :: "nat list \<Rightarrow> bool" where
  "beginsNumber v =
     (let trimmed = dropWhile isWhiteSpace v;
          u = (if take 1 trimmed = utf16 ''-'' \<or> take 1 trimmed = utf16 ''+''
               then drop 1 trimmed else trimmed)
      in take 8 u = utf16 ''Infinity'' \<or>
         (case u of
            [] \<Rightarrow> False
          | c # r \<Rightarrow>
              isDigit c \<or>
              (c = of_char CHR ''.'' \<and> (case r of [] \<Rightarrow> False | d # r' \<Rightarrow> isDigit d))))"

text \<open>The Number that the literal \<^verbatim>\<open>0.7\<close> of the source denotes.\<close>

definition literal_0_7 :: jsnumber where
  "literal_0_7 = numericValue False 7 (- 1)"

text \<open>
  The initialiser of the \<^verbatim>\<open>volume\<close> state (chiptune player lines 24-30, vapor player
  lines 22-28). \<open>windowDefined\<close> is \<^verbatim>\<open>typeof window !== 'undefined'\<close>, \<open>savedVolume\<close> the
  result of \<^verbatim>\<open>localStorage.getItem\<close> (\<open>None\<close> for \<^verbatim>\<open>null\<close>).
\<close>

definition initialVolume :: "bool \<Rightarrow> nat list option \<Rightarrow> jsnumber" where
  "initialVolume windowDefined savedVolume =
     (if windowDefined then
        (if truthy_field savedVolume then parseFloat (the savedVolume) else literal_0_7)
      else literal_0_7)"

text \<open>
  The storage of the browser is the list of its keys with their values; each player reads
  its own key on the client.
\<close>

definition chiptuneVolume :: "(string \<times> nat list) list \<Rightarrow> jsnumber" where
  "chiptuneVolume localStorage =
     initialVolume True (map_of localStorage ''chiptunePlayerVolume'')"

definition vaporVolume :: "(string \<times> nat list) list \<Rightarrow> jsnumber" where
  "vaporVolume localStorage = initialVolume True (map_of localStorage ''vaporPlayerVolume'')"

text \<open>The number is a volume the audio element accepts.\<close>

definition in_unit_interval :: "jsnumber \<Rightarrow> bool" where
  "in_unit_interval v = (case v of Finite q \<Rightarrow> 0 \<le> q \<and> q \<le> 1 | _ \<Rightarrow> False)"

section \<open>Tracks, metadata payloads and the play history\<close>

text \<open>
  The two players (\<^verbatim>\<open>chiptuneplayer.tsx\<close>, pull transport, and \<^verbatim>\<open>vaporplayer.tsx\<close>,
  push transport) keep the same React state. The object held in \<^verbatim>\<open>currentTrack\<close> is read
  through its \<^verbatim>\<open>artist\<close> and \<^verbatim>\<open>title\<close> fields only.
\<close>

record track =
  artist :: string
  title :: string

text \<open>
  A parsed metadata payload (\<^verbatim>\<open>data\<close>). The source declares both fields as strings; a
  field that is missing (\<^verbatim>\<open>undefined\<close>) or \<^verbatim>\<open>null\<close> is \<open>None\<close>.
\<close>

record metadata =
  data_artist :: "string option"
  data_title :: "string option"

text \<open>\<^verbatim>\<open>TrackHistoryEntry\<close>; \<open>startedAt\<close> is the \<^verbatim>\<open>Date\<close> as milliseconds since the epoch.\<close>

record TrackHistoryEntry =
  h_title :: string
  h_artist :: string
  startedAt :: int

text \<open>What an interval timer of the page does when it fires.\<close>

datatype timer_kind =
    Elapsed
  | Poll nat "track option"

text \<open>
  The component state shared by both players: the \<^verbatim>\<open>useState\<close> cells, the \<^verbatim>\<open>useRef\<close>
  cells, and the part of the environment the handlers act on (the interval timers of the
  window, the lines written by \<^verbatim>\<open>console.error\<close>, the promises not yet settled).
  \<open>trackObj\<close> is the identity of the object held in \<open>currentTrack\<close>: React compares effect
  dependencies by identity, and every \<^verbatim>\<open>setCurrentTrack(data)\<close> stores a fresh object.
\<close>

record player =
  isPlaying :: bool
  volume :: jsnumber
  isMuted :: bool
  currentTrack :: "track option"
  trackObj :: nat
  playbackTime :: nat
  trackHistory :: "TrackHistoryEntry list"
  lastTrackRef :: "string option"
  timerRef :: "nat option"
  audioRef :: bool
  console :: "string list"
  intervals :: "(nat \<times> timer_kind) list"
  nextId :: nat
  autoplayPending :: bool
  initialPending :: bool
  playPending :: nat

text \<open>The template literal \<^verbatim>\<open>`${data.artist}-${data.title}`\<close>.\<close>

definition trackId :: "string \<Rightarrow> string \<Rightarrow> string" where
  "trackId a t = a @ ''-'' @ t"

text \<open>
  The body of the metadata handler after the payload is parsed
  (\<^verbatim>\<open>fetchAndUpdateTrack\<close>, lines 135-152 of the chiptune player; \<^verbatim>\<open>onmessage\<close>, lines
  137-154 of the vapor player). \<open>closureTrack\<close> is the \<^verbatim>\<open>currentTrack\<close> captured by the
  render that created the handler, \<open>now\<close> is \<^verbatim>\<open>Date.now()\<close>.
\<close>

definition updateTrack ::
  "track option \<Rightarrow> int \<Rightarrow> metadata \<Rightarrow> 'a player_scheme \<Rightarrow> 'a player_scheme" where
  "updateTrack closureTrack now d s =
     (if truthy_field (data_artist d) \<and> truthy_field (data_title d) then
        (let tid = trackId (the (data_artist d)) (the (data_title d)) in
         if lastTrackRef s \<noteq> Some tid then
           (let s1 = (case closureTrack of
                        Some c \<Rightarrow>
                          s\<lparr>trackHistory :=
                              take 3 (\<lparr>h_title = title c, h_artist = artist c,
                                       startedAt = now - 1000\<rparr> # trackHistory s)\<rparr>
                      | None \<Rightarrow> s)
            in s1\<lparr>lastTrackRef := Some tid,
                  currentTrack := Some \<lparr>artist = the (data_artist d), title = the (data_title d)\<rparr>,
                  trackObj := Suc (trackObj s1)\<rparr>)
         else s)
      else s)"

text \<open>
  What the claims call a detected change: the handler called \<^verbatim>\<open>setCurrentTrack\<close> (which
  stores a fresh object) or wrote the history.
\<close>

definition detected :: "'a player_scheme \<Rightarrow> 'a player_scheme \<Rightarrow> bool" where
  "detected s s' = (trackObj s' \<noteq> trackObj s \<or> trackHistory s' \<noteq> trackHistory s)"

text \<open>
  Feeding one payload to a sequence of handlers, each with its captured track and its
  clock: the state they leave, and for every handler whether it detected a change.
\<close>

fun deliveries ::
  "metadata \<Rightarrow> (track option \<times> int) list \<Rightarrow> 'a player_scheme \<Rightarrow> 'a player_scheme" where
  "deliveries d [] s = s"
| "deliveries d (cn # cns) s = deliveries d cns (updateTrack (fst cn) (snd cn) d s)"

fun detections ::
  "metadata \<Rightarrow> (track option \<times> int) list \<Rightarrow> 'a player_scheme \<Rightarrow> bool list" where
  "detections d [] s = []"
| "detections d (cn # cns) s =
     detected s (updateTrack (fst cn) (snd cn) d s)
     # detections d cns (updateTrack (fst cn) (snd cn) d s)"

text \<open>Every payload of the run names a track other than the one before it.\<close>

fun transitions :: "string option \<Rightarrow> (int \<times> metadata) list \<Rightarrow> bool" where
  "transitions l [] = True"
| "transitions l (nd # nds) =
     (truthy_field (data_artist (snd nd)) \<and> truthy_field (data_title (snd nd)) \<and>
      l \<noteq> Some (trackId (the (data_artist (snd nd))) (the (data_title (snd nd)))) \<and>
      transitions (Some (trackId (the (data_artist (snd nd))) (the (data_title (snd nd))))) nds)"

section \<open>The playback controller\<close>

text \<open>\<^verbatim>\<open>window.setInterval\<close> and \<^verbatim>\<open>clearInterval\<close>; the new handle is \<open>nextId\<close>.\<close>

definition setInterval :: "timer_kind \<Rightarrow> 'a player_scheme \<Rightarrow> 'a player_scheme" where
  "setInterval k s = s\<lparr>intervals := (nextId s, k) # intervals s, nextId := Suc (nextId s)\<rparr>"

definition clearInterval :: "nat \<Rightarrow> 'a player_scheme \<Rightarrow> 'a player_scheme" where
  "clearInterval i s = s\<lparr>intervals := filter (\<lambda>p. fst p \<noteq> i) (intervals s)\<rparr>"

definition consoleError :: "string \<Rightarrow> 'a player_scheme \<Rightarrow> 'a player_scheme" where
  "consoleError msg s = s\<lparr>console := console s @ [msg]\<rparr>"

text \<open>The timer effect (dependencies \<^verbatim>\<open>[isPlaying]\<close>) and its cleanup.\<close>

definition timer_effect :: "'a player_scheme \<Rightarrow> 'a player_scheme" where
  "timer_effect s =
     (if isPlaying s then (setInterval Elapsed s)\<lparr>timerRef := Some (nextId s)\<rparr>
      else (case timerRef s of Some i \<Rightarrow> clearInterval i s | None \<Rightarrow> s))"

definition timer_cleanup :: "'a player_scheme \<Rightarrow> 'a player_scheme" where
  "timer_cleanup s = (case timerRef s of Some i \<Rightarrow> clearInterval i s | None \<Rightarrow> s)"

text \<open>
  \<^verbatim>\<open>startPlayback\<close> after its \<^verbatim>\<open>await audioRef.current.play()\<close>: \<open>ok\<close> tells whether the
  promise resolved.
\<close>

definition startPlayback_settled :: "bool \<Rightarrow> 'a player_scheme \<Rightarrow> 'a player_scheme" where
  "startPlayback_settled ok s =
     (if ok then s\<lparr>isPlaying := True\<rparr>
      else (consoleError ''Autoplay failed:'' s)\<lparr>isPlaying := False\<rparr>)"

text \<open>
  \<^verbatim>\<open>togglePlayPause\<close>. The promise of \<^verbatim>\<open>play()\<close> is left pending; its only handler is the
  \<^verbatim>\<open>catch\<close> of \<open>play_settled\<close>.
\<close>

definition togglePlayPause :: "'a player_scheme \<Rightarrow> 'a player_scheme" where
  "togglePlayPause s =
     (if audioRef s then
        (if isPlaying s then s else s\<lparr>playPending := Suc (playPending s)\<rparr>)
          \<lparr>isPlaying := \<not> isPlaying s\<rparr>
      else s)"

definition play_settled :: "bool \<Rightarrow> 'a player_scheme \<Rightarrow> 'a player_scheme" where
  "play_settled ok s = (if ok then s else consoleError ''Playback failed:'' s)"

text \<open>\<^verbatim>\<open>fetchInitialMetadata\<close> after its fetch; \<open>None\<close>: the fetch or the parse threw.\<close>

definition fetchInitialMetadata_settled ::
  "metadata option \<Rightarrow> 'a player_scheme \<Rightarrow> 'a player_scheme" where
  "fetchInitialMetadata_settled r s =
     (case r of
        None \<Rightarrow> consoleError ''Error fetching initial metadata:'' s
      | Some d \<Rightarrow>
          if truthy_field (data_artist d) \<and> truthy_field (data_title d) then
            s\<lparr>currentTrack := Some \<lparr>artist = the (data_artist d), title = the (data_title d)\<rparr>,
              trackObj := Suc (trackObj s),
              lastTrackRef := Some (trackId (the (data_artist d)) (the (data_title d)))\<rparr>
          else s)"

text \<open>The \<^verbatim>\<open>onEnded\<close> and \<^verbatim>\<open>onError\<close> handlers of the audio element.\<close>

definition onEnded :: "'a player_scheme \<Rightarrow> 'a player_scheme" where
  "onEnded s = s\<lparr>isPlaying := False, playbackTime := 0\<rparr>"

definition onError :: "'a player_scheme \<Rightarrow> 'a player_scheme" where
  "onError s =
     consoleError ''Stream connection failed. Please try again later.''
       (s\<lparr>isPlaying := False, playbackTime := 0\<rparr>)"

definition toggleMute :: "'a player_scheme \<Rightarrow> 'a player_scheme" where
  "toggleMute s = s\<lparr>isMuted := \<not> isMuted s\<rparr>"

definition handleVolumeChange :: "nat list \<Rightarrow> 'a player_scheme \<Rightarrow> 'a player_scheme" where
  "handleVolumeChange v s = s\<lparr>volume := parseFloat v\<rparr>"

text \<open>
  What can happen to a mounted player. \<open>AutoplaySettled\<close>, \<open>PlaySettled\<close>,
  \<open>InitialMetadata\<close> and \<open>FetchSettled\<close> settle a pending promise; \<open>TimerFired\<close> is an
  interval timer of the window firing; \<open>Message\<close> and \<open>SourceError\<close> come from an
  \<^verbatim>\<open>EventSource\<close>. \<open>FetchSettled k r now\<close> settles the \<open>k\<close>-th fetch in flight with
  payload \<open>r\<close> (\<open>None\<close>: rejected or unparseable) at time \<open>now\<close>.
\<close>

datatype event =
    TogglePlayPause
  | ToggleMute
  | VolumeChange "nat list"
  | AutoplaySettled bool
  | PlaySettled bool
  | InitialMetadata "metadata option"
  | Ended
  | AudioError
  | TimerFired nat
  | FetchSettled nat "metadata option" int
  | Message nat "metadata option" int
  | SourceError nat

text \<open>The handlers both players share; an event that is not enabled changes nothing.\<close>

fun player_handle :: "event \<Rightarrow> 'a player_scheme \<Rightarrow> 'a player_scheme" where
  "player_handle TogglePlayPause s = togglePlayPause s"
| "player_handle ToggleMute s = toggleMute s"
| "player_handle (VolumeChange v) s = handleVolumeChange v s"
| "player_handle (AutoplaySettled ok) s =
     (if autoplayPending s then startPlayback_settled ok (s\<lparr>autoplayPending := False\<rparr>) else s)"
| "player_handle (PlaySettled ok) s =
     (if 0 < playPending s then play_settled ok (s\<lparr>playPending := playPending s - 1\<rparr>) else s)"
| "player_handle (InitialMetadata r) s =
     (if initialPending s then fetchInitialMetadata_settled r (s\<lparr>initialPending := False\<rparr>)
      else s)"
| "player_handle Ended s = onEnded s"
| "player_handle AudioError s = onError s"
| "player_handle (TimerFired i) s =
     (case map_of (intervals s) i of
        Some Elapsed \<Rightarrow> s\<lparr>playbackTime := playbackTime s + 1\<rparr>
      | _ \<Rightarrow> s)"
| "player_handle (FetchSettled k r now) s = s"
| "player_handle (Message e r now) s = s"
| "player_handle (SourceError e) s = s"

section \<open>The chiptune player: metadata by polling\<close>

text \<open>
  Every run of the subscription effect (chiptune player lines 126-171) is an instance with
  its own \<^verbatim>\<open>pollingInterval\<close> and \<^verbatim>\<open>isUnmounted\<close>. \<open>liveInstance\<close> is the latest one,
  \<open>isUnmounted\<close> lists the instances whose flag is set, and \<open>pending\<close> holds the fetches of
  \<^verbatim>\<open>fetchAndUpdateTrack\<close> in flight, each with the instance that started it and the
  \<^verbatim>\<open>currentTrack\<close> that instance captured.
\<close>

record chip = player +
  liveInstance :: nat
  pollingInterval :: "nat option"
  isUnmounted :: "nat list"
  nextInstance :: nat
  pending :: "(nat \<times> track option) list"

definition chip_cleanup :: "chip \<Rightarrow> chip" where
  "chip_cleanup s =
     (let s1 = s\<lparr>isUnmounted := liveInstance s # isUnmounted s\<rparr>
      in case pollingInterval s1 of Some i \<Rightarrow> clearInterval i s1 | None \<Rightarrow> s1)"

definition chip_effect :: "chip \<Rightarrow> chip" where
  "chip_effect s =
     (let e = nextInstance s;
          s1 = s\<lparr>liveInstance := e, nextInstance := Suc e, pollingInterval := None\<rparr>
      in if isPlaying s1 then
           (setInterval (Poll e (currentTrack s1))
              (s1\<lparr>pending := pending s1 @ [(e, currentTrack s1)]\<rparr>))
             \<lparr>pollingInterval := Some (nextId s1)\<rparr>
         else s1)"

text \<open>
  The render after a handler has run: the cleanups of the effects whose dependencies
  changed, then their setups, in the order the component declares them.
\<close>

definition chip_render :: "chip \<Rightarrow> chip \<Rightarrow> chip" where
  "chip_render old new =
     (let playing = (isPlaying new \<noteq> isPlaying old);
          sub = (playing \<or> trackObj new \<noteq> trackObj old);
          s1 = (if playing then timer_cleanup new else new);
          s2 = (if sub then chip_cleanup s1 else s1);
          s3 = (if playing then timer_effect s2 else s2)
      in if sub then chip_effect s3 else s3)"

definition fetchAndUpdateTrack_settled ::
  "nat \<Rightarrow> metadata option \<Rightarrow> int \<Rightarrow> chip \<Rightarrow> chip" where
  "fetchAndUpdateTrack_settled k r now s =
     (if k < length (pending s) then
        (let e = fst (pending s ! k);
             c = snd (pending s ! k);
             s1 = s\<lparr>pending := take k (pending s) @ drop (Suc k) (pending s)\<rparr>
         in case r of
              Some d \<Rightarrow> updateTrack c now d s1
            | None \<Rightarrow>
                if e \<in> set (isUnmounted s1) then s1
                else consoleError ''Error polling metadata:'' s1)
      else s)"

definition chip_handle :: "event \<Rightarrow> chip \<Rightarrow> chip" where
  "chip_handle ev s =
     (case ev of
        TimerFired i \<Rightarrow>
          (case map_of (intervals s) i of
             Some (Poll e c) \<Rightarrow> s\<lparr>pending := pending s @ [(e, c)]\<rparr>
           | _ \<Rightarrow> player_handle ev s)
      | FetchSettled k r now \<Rightarrow> fetchAndUpdateTrack_settled k r now s
      | _ \<Rightarrow> player_handle ev s)"

definition chip_step :: "event \<Rightarrow> chip \<Rightarrow> chip" where
  "chip_step ev s = chip_render s (chip_handle ev s)"

definition chip_run :: "event list \<Rightarrow> chip \<Rightarrow> chip" where
  "chip_run evs s = foldl (\<lambda>s ev. chip_step ev s) s evs"

text \<open>
  The player after mounting: the autoplay promise and the initial metadata fetch are
  pending, the timer effect and the subscription effect have run with \<^verbatim>\<open>isPlaying\<close> false.
\<close>

definition chip_init :: "(string \<times> nat list) list \<Rightarrow> chip" where
  "chip_init localStorage =
     \<lparr>isPlaying = False, volume = chiptuneVolume localStorage, isMuted = False,
      currentTrack = None, trackObj = 0, playbackTime = 0, trackHistory = [],
      lastTrackRef = None, timerRef = None, audioRef = True, console = [],
      intervals = [], nextId = 1, autoplayPending = True, initialPending = True,
      playPending = 0,
      liveInstance = 0, pollingInterval = None, isUnmounted = [], nextInstance = 1,
      pending = []\<rparr>"

text \<open>The subscription handles of the chiptune player: its live polling timers.\<close>

definition chip_handles :: "chip \<Rightarrow> nat list" where
  "chip_handles s = map fst (filter (\<lambda>p. snd p \<noteq> Elapsed) (intervals s))"

section \<open>The vapor player: metadata by server-sent events\<close>

text \<open>
  \<open>openSources\<close> are the \<^verbatim>\<open>EventSource\<close> objects not yet closed, each with the
  \<^verbatim>\<open>currentTrack\<close> its \<^verbatim>\<open>onmessage\<close> handler captured.
\<close>

record vapor = player +
  eventSourceRef :: "nat option"
  openSources :: "(nat \<times> track option) list"
  nextSource :: nat

definition closeSource :: "nat \<Rightarrow> vapor \<Rightarrow> vapor" where
  "closeSource e s = s\<lparr>openSources := filter (\<lambda>p. fst p \<noteq> e) (openSources s)\<rparr>"

definition vapor_cleanup :: "vapor \<Rightarrow> vapor" where
  "vapor_cleanup s =
     (case eventSourceRef s of
        Some e \<Rightarrow> (closeSource e s)\<lparr>eventSourceRef := None\<rparr>
      | None \<Rightarrow> s)"

definition setupSSE :: "vapor \<Rightarrow> vapor" where
  "setupSSE s =
     (let s1 = (case eventSourceRef s of
                  Some e \<Rightarrow> (closeSource e s)\<lparr>eventSourceRef := None\<rparr>
                | None \<Rightarrow> s)
      in if isPlaying s1 then
           s1\<lparr>openSources := (nextSource s1, currentTrack s1) # openSources s1,
               eventSourceRef := Some (nextSource s1),
               nextSource := Suc (nextSource s1)\<rparr>
         else s1)"

definition vapor_render :: "vapor \<Rightarrow> vapor \<Rightarrow> vapor" where
  "vapor_render old new =
     (let playing = (isPlaying new \<noteq> isPlaying old);
          sub = (playing \<or> trackObj new \<noteq> trackObj old);
          s1 = (if playing then timer_cleanup new else new);
          s2 = (if sub then vapor_cleanup s1 else s1);
          s3 = (if playing then timer_effect s2 else s2)
      in if sub then setupSSE s3 else s3)"

definition onmessage :: "nat \<Rightarrow> metadata option \<Rightarrow> int \<Rightarrow> vapor \<Rightarrow> vapor" where
  "onmessage e r now s =
     (case map_of (openSources s) e of
        None \<Rightarrow> s
      | Some c \<Rightarrow>
          (case r of
             Some d \<Rightarrow> updateTrack c now d s
           | None \<Rightarrow> consoleError ''Error parsing SSE data:'' s))"

definition onerror :: "nat \<Rightarrow> vapor \<Rightarrow> vapor" where
  "onerror e s =
     (case map_of (openSources s) e of
        None \<Rightarrow> s
      | Some c \<Rightarrow>
          (closeSource e (consoleError ''SSE connection error:'' s))\<lparr>eventSourceRef := None\<rparr>)"

definition vapor_handle :: "event \<Rightarrow> vapor \<Rightarrow> vapor" where
  "vapor_handle ev s =
     (case ev of
        Message e r now \<Rightarrow> onmessage e r now s
      | SourceError e \<Rightarrow> onerror e s
      | _ \<Rightarrow> player_handle ev s)"

definition vapor_step :: "event \<Rightarrow> vapor \<Rightarrow> vapor" where
  "vapor_step ev s = vapor_render s (vapor_handle ev s)"

definition vapor_run :: "event list \<Rightarrow> vapor \<Rightarrow> vapor" where
  "vapor_run evs s = foldl (\<lambda>s ev. vapor_step ev s) s evs"

text \<open>
  Messages that arrive one after the other on the event source the vapor player holds at
  the time, each with its payload and the time it arrives.
\<close>

definition message :: "int \<Rightarrow> metadata \<Rightarrow> vapor \<Rightarrow> vapor" where
  "message now d s =
     (case eventSourceRef s of
        None \<Rightarrow> s
      | Some e \<Rightarrow> vapor_step (Message e (Some d) now) s)"

fun messages :: "(int \<times> metadata) list \<Rightarrow> vapor \<Rightarrow> vapor" where
  "messages [] s = s"
| "messages (nd # nds) s = messages nds (message (fst nd) (snd nd) s)"

definition vapor_init :: "(string \<times> nat list) list \<Rightarrow> vapor" where
  "vapor_init localStorage =
     \<lparr>isPlaying = False, volume = vaporVolume localStorage, isMuted = False,
      currentTrack = None, trackObj = 0, playbackTime = 0, trackHistory = [],
      lastTrackRef = None, timerRef = None, audioRef = True, console = [],
      intervals = [], nextId = 1, autoplayPending = True, initialPending = True,
      playPending = 0,
      eventSourceRef = None, openSources = [], nextSource = 1\<rparr>"

text \<open>The subscription handles of the vapor player: its open event sources.\<close>

definition vapor_handles :: "vapor \<Rightarrow> nat list" where
  "vapor_handles s = map fst (openSources s)"

section \<open>The status proxy\<close>

text \<open>
  A parsed JSON document. An object is the list of its members in order; the parser
  keeps one member per key.
\<close>

datatype json =
    JNull
  | JBool bool
  | JNumber rat
  | JString string
  | JArray "json list"
  | JObject "(string \<times> json) list"

datatype error = TypeError

text \<open>
  The body handed to \<^verbatim>\<open>new Response\<close>: a literal text, or \<^verbatim>\<open>JSON.stringify\<close> of a
  value.
\<close>

datatype body = Text string | Stringify json

record http_response =
  status :: nat
  body :: body
  contentType :: string

definition truthy :: "json \<Rightarrow> bool" where
  "truthy v =
     (case v of
        JNull \<Rightarrow> False
      | JBool b \<Rightarrow> b
      | JNumber n \<Rightarrow> n \<noteq> 0
      | JString x \<Rightarrow> x \<noteq> []
      | _ \<Rightarrow> True)"

text \<open>
  Reading the member \<open>k\<close> of a value other than \<^verbatim>\<open>null\<close>; \<open>None\<close> is \<^verbatim>\<open>undefined\<close>.
  The keys read by the handler are members of no string, number, boolean or array.
\<close>

fun getProp :: "json \<Rightarrow> string \<Rightarrow> json option" where
  "getProp (JObject kvs) k = map_of kvs k"
| "getProp v k = None"

text \<open>
  The assignment \<^verbatim>\<open>v.k = x\<close> in module (strict) code, as \<^verbatim>\<open>JSON.stringify\<close> then sees
  the value: a named member of an array is not serialised.
\<close>

fun assign :: "json \<Rightarrow> string \<Rightarrow> json \<Rightarrow> error + json" where
  "assign (JObject kvs) k x = Inr (JObject (AList.update k x kvs))"
| "assign (JArray xs) k x = Inr (JArray xs)"
| "assign v k x = Inl TypeError"

text \<open>
  \<^verbatim>\<open>source.find((source) => source.server_name === name)\<close>; reading a member of a
  \<^verbatim>\<open>null\<close> element throws.
\<close>

fun find_source :: "string \<Rightarrow> json list \<Rightarrow> error + json option" where
  "find_source name [] = Inr None"
| "find_source name (x # xs) =
     (if x = JNull then Inl TypeError
      else if getProp x ''server_name'' = Some (JString name) then Inr (Some x)
      else find_source name xs)"

text \<open>\<^verbatim>\<open>json.icestats?.source\<close>.\<close>

definition icestats_source :: "json \<Rightarrow> error + json option" where
  "icestats_source json =
     (if json = JNull then Inl TypeError
      else
        (case getProp json ''icestats'' of
           None \<Rightarrow> Inr None
         | Some i \<Rightarrow> if i = JNull then Inr None else Inr (getProp i ''source'')))"

definition notFound :: http_response where
  "notFound =
     \<lparr>status = 404, body = Text ''No data found'', contentType = ''application/json''\<rparr>"

text \<open>
  The \<^verbatim>\<open>GET\<close> handler of a status route, after the upstream document is fetched and
  parsed; the three routes differ in the name they look for and the URL they write.
\<close>

definition GET :: "string \<Rightarrow> string \<Rightarrow> json \<Rightarrow> error + http_response" where
  "GET name url json =
     (case icestats_source json of
        Inl e \<Rightarrow> Inl e
      | Inr src \<Rightarrow>
          (case src of
             None \<Rightarrow> Inr notFound
           | Some v \<Rightarrow>
               if truthy v then
                 (case v of
                    JArray xs \<Rightarrow>
                      (case find_source name xs of
                         Inl e \<Rightarrow> Inl e
                       | Inr None \<Rightarrow> Inl TypeError
                       | Inr (Some found) \<Rightarrow>
                           (case assign found ''listenurl'' (JString url) of
                              Inl e \<Rightarrow> Inl e
                            | Inr w \<Rightarrow>
                                Inr \<lparr>status = 200, body = Stringify w,
                                     contentType = ''application/json''\<rparr>))
                  | _ \<Rightarrow> Inl TypeError)
               else Inr notFound))"

definition GET_vaporwave :: "json \<Rightarrow> error + http_response" where
  "GET_vaporwave = GET ''Vaporwave Radio'' ''https://krelez.ruohki.dev/vapor/stream''"

definition GET_vaporfunk :: "json \<Rightarrow> error + http_response" where
  "GET_vaporfunk = GET ''VaporFunk radio'' ''https://krelez.ruohki.dev/vapor/stream''"

definition GET_chiptune :: "json \<Rightarrow> error + http_response" where
  "GET_chiptune = GET ''Chiptune Radio'' ''https://krelez.ruohki.dev/chip/stream''"

text \<open>The source list of a status document holds no entry of the given name.\<close>

definition no_entry :: "string \<Rightarrow> json \<Rightarrow> bool" where
  "no_entry name json =
     (case icestats_source json of
        Inr (Some (JArray xs)) \<Rightarrow>
          list_all (\<lambda>x. getProp x ''server_name'' \<noteq> Some (JString name)) xs
      | _ \<Rightarrow> False)"

text \<open>The document has no usable source list: \<^verbatim>\<open>json.icestats?.source\<close> is falsy.\<close>

definition no_source :: "json \<Rightarrow> bool" where
  "no_source json =
     (case icestats_source json of
        Inl e \<Rightarrow> False
      | Inr None \<Rightarrow> True
      | Inr (Some v) \<Rightarrow> \<not> truthy v)"

section \<open>Invariants of the mounted players\<close>

text \<open>
  While the chiptune player is playing, the window has exactly its polling timer and its
  elapsed-time timer, held by \<^verbatim>\<open>pollingInterval\<close> and \<^verbatim>\<open>timerRef\<close>; otherwise it has no
  timer at all. The polling timer calls the \<^verbatim>\<open>fetchAndUpdateTrack\<close> that captured the
  current track.
\<close>

definition chip_inv :: "chip \<Rightarrow> bool" where
  "chip_inv s =
     (audioRef s \<and>
      (if isPlaying s then
         (\<exists>p t e. intervals s = [(p, Poll e (currentTrack s)), (t, Elapsed)] \<and>
            pollingInterval s = Some p \<and> timerRef s = Some t \<and> p \<noteq> t \<and>
            t < nextId s \<and> p < nextId s)
       else intervals s = [] \<and> pollingInterval s = None))"

text \<open>
  The vapor player has at most the event source held by \<^verbatim>\<open>eventSourceRef\<close>, whose handler
  captured the current track, and has none while it is not playing.
\<close>

definition vapor_inv :: "vapor \<Rightarrow> bool" where
  "vapor_inv s =
     (openSources s = (case eventSourceRef s of None \<Rightarrow> [] | Some e \<Rightarrow> [(e, currentTrack s)]) \<and>
      (eventSourceRef s = None \<or> isPlaying s))"

section \<open>Track change detection\<close>

lemma updateTrack_same:
  "lastTrackRef s = Some (trackId a t) \<Longrightarrow> data_artist d = Some a \<Longrightarrow> data_title d = Some t
   \<Longrightarrow> updateTrack c now d s = s"
  by (simp add: updateTrack_def Let_def)

lemma updateTrack_lastTrackRef:
  "data_artist d = Some a \<Longrightarrow> data_title d = Some t \<Longrightarrow> a \<noteq> [] \<Longrightarrow> t \<noteq> []
   \<Longrightarrow> lastTrackRef (updateTrack c now d s) = Some (trackId a t)"
  by (simp add: updateTrack_def Let_def truthy_field_def split: option.splits)

lemma updateTrack_invalid:
  "\<not> (truthy_field (data_artist d) \<and> truthy_field (data_title d))
   \<Longrightarrow> updateTrack c now d s = s"
  by (auto simp: updateTrack_def)

lemma detections_repeat:
  "lastTrackRef s = Some (trackId a t) \<Longrightarrow> data_artist d = Some a \<Longrightarrow> data_title d = Some t
   \<Longrightarrow> detections d cns s = replicate (length cns) False \<and> deliveries d cns s = s"
  by (induction cns) (simp_all add: updateTrack_same detected_def)

lemma updateTrack_new:
  assumes "data_artist d = Some a" and "data_title d = Some t" and "a \<noteq> []" and "t \<noteq> []"
    and "lastTrackRef s \<noteq> Some (trackId a t)"
  shows "currentTrack (updateTrack c now d s) = Some \<lparr>artist = a, title = t\<rparr>"
    and "trackObj (updateTrack c now d s) = Suc (trackObj s)"
    and "trackHistory (updateTrack c now d s) =
           (case c of
              None \<Rightarrow> trackHistory s
            | Some k \<Rightarrow>
                take 3 (\<lparr>h_title = title k, h_artist = artist k, startedAt = now - 1000\<rparr>
                        # trackHistory s))"
  using assms by (simp_all add: updateTrack_def Let_def truthy_field_def split: option.splits)

text \<open>
  Claim C5, amended. The identity computed for change detection is
  \<^verbatim>\<open>artist + "-" + title\<close>, a hyphen and not a NUL between the fields: a payload with
  both fields leaves this string in \<^verbatim>\<open>lastTrackRef\<close>, and it is taken for the track
  already known (the state stays as it is) exactly when this string is the one stored
  there.
\<close>

theorem trackId_hyphen:
  assumes "data_artist d = Some a" and "data_title d = Some t" and "a \<noteq> []" and "t \<noteq> []"
  shows "lastTrackRef (updateTrack c now d s) = Some (a @ ''-'' @ t) \<and>
         (updateTrack c now d s = s) = (lastTrackRef s = Some (a @ ''-'' @ t))"
proof (intro conjI iffI)
  show l: "lastTrackRef (updateTrack c now d s) = Some (a @ ''-'' @ t)"
    using assms by (simp add: updateTrack_lastTrackRef trackId_def)
  show "lastTrackRef s = Some (a @ ''-'' @ t)" if "updateTrack c now d s = s"
    using l unfolding that .
  show "updateTrack c now d s = s" if "lastTrackRef s = Some (a @ ''-'' @ t)"
    using that assms(1,2) by (intro updateTrack_same) (simp_all add: trackId_def)
qed

text \<open>The amended claim at the first payload a freshly mounted chiptune player sees.\<close>

theorem trackId_hyphen_witness:
  "lastTrackRef
     (updateTrack None 5000 \<lparr>data_artist = Some ''A'', data_title = Some ''X''\<rparr>
        (chip_init [])) = Some ''A-X''"
  using trackId_hyphen [of "\<lparr>data_artist = Some ''A'', data_title = Some ''X''\<rparr>" "''A''" "''X''"
      None 5000 "chip_init []"]
  by simp

text \<open>
  The claim as written fails: for artist \<^verbatim>\<open>A\<close> and title \<^verbatim>\<open>X\<close> the identity stored is
  \<^verbatim>\<open>A-X\<close>, which is not the NUL-delimited string.
\<close>

theorem trackId_nul_counterexample:
  "lastTrackRef
     (updateTrack None 5000 \<lparr>data_artist = Some ''A'', data_title = Some ''X''\<rparr>
        (chip_init [])) \<noteq> Some (''A'' @ [CHR 0x00] @ ''X'')"
  by (simp add: updateTrack_def truthy_field_def trackId_def chip_init_def)

text \<open>
  Claim C7. The same payload, naming a track other than the last one seen, is fed \<open>N\<close>
  times in a row to any handlers (the first with the captured track \<open>c\<close> at time \<open>now\<close>,
  then those of \<open>rest\<close>, so \<open>N\<close> is one more than the length of \<open>rest\<close>). The first
  handler detects a change: it makes the payload the current track and puts the track it
  captured, if any, in front of the history. None of the other \<open>N - 1\<close> detects one, and
  they leave the state as the first one left it.
\<close>

theorem repeated_payload_detected_once:
  assumes "data_artist d = Some a" and "data_title d = Some t" and "a \<noteq> []" and "t \<noteq> []"
    and "lastTrackRef s \<noteq> Some (trackId a t)"
  shows "detections d ((c, now) # rest) s = True # replicate (length rest) False \<and>
         currentTrack (updateTrack c now d s) = Some \<lparr>artist = a, title = t\<rparr> \<and>
         trackHistory (updateTrack c now d s) =
           (case c of
              None \<Rightarrow> trackHistory s
            | Some k \<Rightarrow>
                take 3 (\<lparr>h_title = title k, h_artist = artist k, startedAt = now - 1000\<rparr>
                        # trackHistory s)) \<and>
         deliveries d ((c, now) # rest) s = updateTrack c now d s"
proof -
  let ?s1 = "updateTrack c now d s"
  have l: "lastTrackRef ?s1 = Some (trackId a t)"
    using assms by (simp add: updateTrack_lastTrackRef)
  have "detected s ?s1"
    using updateTrack_new(2) [OF assms, of c now] by (simp add: detected_def)
  moreover have "detections d rest ?s1 = replicate (length rest) False \<and>
                 deliveries d rest ?s1 = ?s1"
    using l assms(1,2) by (rule detections_repeat)
  ultimately show ?thesis
    using updateTrack_new(1,3) [OF assms, of c now] by simp
qed

text \<open>
  A chiptune player that shows the track \<^verbatim>\<open>One\<close> receives the track \<^verbatim>\<open>Two\<close> in three
  polls in a row.
\<close>

theorem repeated_payload_detected_once_witness:
  "detections \<lparr>data_artist = Some ''B'', data_title = Some ''Two''\<rparr>
     [(Some \<lparr>artist = ''A'', title = ''One''\<rparr>, 5000),
      (Some \<lparr>artist = ''B'', title = ''Two''\<rparr>, 10000),
      (Some \<lparr>artist = ''B'', title = ''Two''\<rparr>, 15000)]
     (fetchInitialMetadata_settled (Some \<lparr>data_artist = Some ''A'', data_title = Some ''One''\<rparr>)
        (chip_init [])) = [True, False, False] \<and>
   currentTrack (deliveries \<lparr>data_artist = Some ''B'', data_title = Some ''Two''\<rparr>
     [(Some \<lparr>artist = ''A'', title = ''One''\<rparr>, 5000),
      (Some \<lparr>artist = ''B'', title = ''Two''\<rparr>, 10000),
      (Some \<lparr>artist = ''B'', title = ''Two''\<rparr>, 15000)]
     (fetchInitialMetadata_settled (Some \<lparr>data_artist = Some ''A'', data_title = Some ''One''\<rparr>)
        (chip_init []))) = Some \<lparr>artist = ''B'', title = ''Two''\<rparr> \<and>
   trackHistory (deliveries \<lparr>data_artist = Some ''B'', data_title = Some ''Two''\<rparr>
     [(Some \<lparr>artist = ''A'', title = ''One''\<rparr>, 5000),
      (Some \<lparr>artist = ''B'', title = ''Two''\<rparr>, 10000),
      (Some \<lparr>artist = ''B'', title = ''Two''\<rparr>, 15000)]
     (fetchInitialMetadata_settled (Some \<lparr>data_artist = Some ''A'', data_title = Some ''One''\<rparr>)
        (chip_init []))) = [\<lparr>h_title = ''One'', h_artist = ''A'', startedAt = 4000\<rparr>]"
proof -
  let ?s = "fetchInitialMetadata_settled
              (Some \<lparr>data_artist = Some ''A'', data_title = Some ''One''\<rparr>) (chip_init [])"
  have n: "lastTrackRef ?s \<noteq> Some (trackId ''B'' ''Two'')"
    and h: "trackHistory ?s = []"
    by (simp_all add: fetchInitialMetadata_settled_def truthy_field_def trackId_def chip_init_def)
  from repeated_payload_detected_once [OF _ _ _ _ n, of
      "\<lparr>data_artist = Some ''B'', data_title = Some ''Two''\<rparr>"
      "Some \<lparr>artist = ''A'', title = ''One''\<rparr>" 5000
      "[(Some \<lparr>artist = ''B'', title = ''Two''\<rparr>, 10000),
        (Some \<lparr>artist = ''B'', title = ''Two''\<rparr>, 15000)]"] h
  show ?thesis by (simp del: detections.simps deliveries.simps add: numeral_2_eq_2)
qed

text \<open>
  Claim C10. A payload in which the artist or the title is missing or empty is ignored:
  the handler body returns the state it was given, so \<^verbatim>\<open>currentTrack\<close>, \<^verbatim>\<open>lastTrackRef\<close>,
  the history and the console are as before. The same holds for the whole message
  handler of the vapor player, for the initial metadata fetch, and for a settled poll of
  the chiptune player, which only leaves the list of fetches in flight.
\<close>

theorem incomplete_payload_ignored:
  assumes "data_artist d = None \<or> data_artist d = Some [] \<or>
           data_title d = None \<or> data_title d = Some []"
  shows "updateTrack c now d s = s \<and> onmessage e (Some d) now v = v \<and>
         fetchInitialMetadata_settled (Some d) s = s \<and>
         currentTrack (fetchAndUpdateTrack_settled k (Some d) now u) = currentTrack u \<and>
         lastTrackRef (fetchAndUpdateTrack_settled k (Some d) now u) = lastTrackRef u \<and>
         trackHistory (fetchAndUpdateTrack_settled k (Some d) now u) = trackHistory u \<and>
         console (fetchAndUpdateTrack_settled k (Some d) now u) = console u"
proof -
  have n: "\<not> (truthy_field (data_artist d) \<and> truthy_field (data_title d))"
    using assms by (auto simp: truthy_field_def)
  have "updateTrack c now d s = s" using n by (rule updateTrack_invalid)
  moreover have "updateTrack c' now d v = v" for c' using n by (rule updateTrack_invalid)
  moreover have "updateTrack c' now d u' = u'" for c' and u' :: chip
    using n by (rule updateTrack_invalid)
  moreover have "fetchInitialMetadata_settled (Some d) s = s"
    using n by (auto simp: fetchInitialMetadata_settled_def)
  ultimately show ?thesis
    by (simp add: onmessage_def fetchAndUpdateTrack_settled_def Let_def split: option.splits)
qed

text \<open>A payload with an artist and an empty title, on a freshly mounted player.\<close>

theorem incomplete_payload_ignored_witness:
  "updateTrack None 5000 \<lparr>data_artist = Some ''A'', data_title = Some []\<rparr>
     (chip_init []) = chip_init []"
  using incomplete_payload_ignored [of "\<lparr>data_artist = Some ''A'', data_title = Some []\<rparr>"
      None 5000 "chip_init []"]
  by simp

section \<open>The persisted volume\<close>

lemmas parseFloat_eval = parseFloat_def utf16_def isWhiteSpace_def isDigit_def digitsValue_def
  exponentPart_def numericValue_def roundDouble_def floorLog2_def bits.simps roundHalfEven_def
  scale2_def Let_def

lemma numericValue_not_NaN: "numericValue neg m x \<noteq> NaN"
  by (simp add: numericValue_def split: option.splits)

lemma literal_0_7_value: "literal_0_7 = Finite (3152519739159347 / 4503599627370496)"
  by (simp add: literal_0_7_def parseFloat_eval)

lemma parseFloat_NaN: "(parseFloat v = NaN) = (\<not> beginsNumber v)"
proof -
  define trimmed where "trimmed = dropWhile isWhiteSpace v"
  define u where "u = (if take 1 trimmed = utf16 ''-'' \<or> take 1 trimmed = utf16 ''+''
                       then drop 1 trimmed else trimmed)"
  define ip where "ip = takeWhile isDigit u"
  define fp where
    "fp = (if take 1 (dropWhile isDigit u) = utf16 ''.''
           then takeWhile isDigit (drop 1 (dropWhile isDigit u)) else [])"
  have digit_point: "\<not> isDigit (of_char CHR ''.'')" by (simp add: isDigit_def)
  have p: "(parseFloat v = NaN) = (take 8 u \<noteq> utf16 ''Infinity'' \<and> ip = [] \<and> fp = [])"
    unfolding parseFloat_def trimmed_def [symmetric] Let_def u_def [symmetric]
      ip_def [symmetric] fp_def [symmetric]
    by (simp add: numericValue_not_NaN)
  have b: "beginsNumber v =
             (take 8 u = utf16 ''Infinity'' \<or>
              (case u of
                 [] \<Rightarrow> False
               | c # r \<Rightarrow>
                   isDigit c \<or>
                   (c = of_char CHR ''.'' \<and> (case r of [] \<Rightarrow> False | d # r' \<Rightarrow> isDigit d))))"
    unfolding beginsNumber_def trimmed_def [symmetric] Let_def u_def [symmetric] ..
  have "(ip = [] \<and> fp = []) =
          (\<not> (case u of
                 [] \<Rightarrow> False
               | c # r \<Rightarrow>
                   isDigit c \<or>
                   (c = of_char CHR ''.'' \<and> (case r of [] \<Rightarrow> False | d # r' \<Rightarrow> isDigit d))))"
  proof (cases u)
    case Nil
    then show ?thesis by (simp add: ip_def fp_def)
  next
    case (Cons c r)
    show ?thesis
    proof (cases "isDigit c")
      case True
      with Cons show ?thesis by (simp add: ip_def)
    next
      case False
      with Cons digit_point show ?thesis
        by (cases r) (auto simp: ip_def fp_def utf16_def)
    qed
  qed
  with p b show ?thesis by blast
qed

text \<open>
  Claim C6, amended. The volume read back at startup is the default \<^verbatim>\<open>0.7\<close> when the
  stored value is absent or the empty string; any other stored text is handed to
  \<^verbatim>\<open>parseFloat\<close> and its result is the volume as it is, not clamped to \<open>[0,1]\<close> and with
  no fallback: it is \<^verbatim>\<open>NaN\<close> exactly when the text does not begin a number.
\<close>

theorem volume_read_back:
  "chiptuneVolume ls =
     (case map_of ls ''chiptunePlayerVolume'' of
        None \<Rightarrow> literal_0_7
      | Some v \<Rightarrow> if v = [] then literal_0_7 else parseFloat v) \<and>
   vaporVolume ls =
     (case map_of ls ''vaporPlayerVolume'' of
        None \<Rightarrow> literal_0_7
      | Some v \<Rightarrow> if v = [] then literal_0_7 else parseFloat v) \<and>
   (parseFloat v = NaN) = (\<not> beginsNumber v)"
  by (simp add: chiptuneVolume_def vaporVolume_def initialVolume_def truthy_field_def
      parseFloat_NaN split: option.splits)

text \<open>
  A storage that holds \<^verbatim>\<open>0.5\<close> for the chiptune player and nothing for the vapor
  player, and the text \<^verbatim>\<open>+x\<close>.
\<close>

theorem volume_read_back_witness:
  "chiptuneVolume [(''chiptunePlayerVolume'', utf16 ''0.5'')] = Finite (1 / 2) \<and>
   vaporVolume [(''chiptunePlayerVolume'', utf16 ''0.5'')] = literal_0_7 \<and>
   \<not> beginsNumber (utf16 ''+x'') \<and> parseFloat (utf16 ''+x'') = NaN"
proof -
  have "parseFloat (utf16 ''0.5'') = Finite (1 / 2)" by (simp add: parseFloat_eval)
  moreover have "\<not> beginsNumber (utf16 ''+x'')"
    by (simp add: beginsNumber_def utf16_def isWhiteSpace_def isDigit_def)
  ultimately show ?thesis
    using volume_read_back [of "[(''chiptunePlayerVolume'', utf16 ''0.5'')]" "utf16 ''+x''"]
    by (simp add: utf16_def)
qed

text \<open>
  The claim as written fails: the stored text \<^verbatim>\<open>loud\<close> reads back as \<^verbatim>\<open>NaN\<close>, which is
  neither in \<open>[0,1]\<close> nor the default, and the stored text \<^verbatim>\<open>2\<close> reads back as \<open>2\<close>.
\<close>

theorem volume_read_back_counterexample:
  "chiptuneVolume [(''chiptunePlayerVolume'', utf16 ''loud'')] = NaN \<and>
   \<not> in_unit_interval (chiptuneVolume [(''chiptunePlayerVolume'', utf16 ''loud'')]) \<and>
   chiptuneVolume [(''chiptunePlayerVolume'', utf16 ''loud'')] \<noteq> literal_0_7 \<and>
   vaporVolume [(''vaporPlayerVolume'', utf16 ''2'')] = Finite 2 \<and>
   \<not> in_unit_interval (vaporVolume [(''vaporPlayerVolume'', utf16 ''2'')])"
proof -
  have "parseFloat (utf16 ''loud'') = NaN" by (simp add: parseFloat_eval)
  moreover have "parseFloat (utf16 ''2'') = Finite 2" by (simp add: parseFloat_eval)
  ultimately show ?thesis
    by (simp add: chiptuneVolume_def vaporVolume_def initialVolume_def truthy_field_def
        utf16_def in_unit_interval_def literal_0_7_value)
qed

section \<open>The status proxy answers\<close>

lemma GET_no_source: "no_source json \<Longrightarrow> GET name url json = Inr notFound"
  by (auto simp: no_source_def GET_def split: sum.splits option.splits)

lemma GET_found_status:
  assumes "GET name url json = Inr r" and "\<not> no_source json"
  shows "status r = 200"
proof (cases "icestats_source json")
  case (Inl e)
  with assms show ?thesis by (simp add: GET_def)
next
  case (Inr src)
  show ?thesis
  proof (cases src)
    case None
    with Inr assms show ?thesis by (simp add: no_source_def)
  next
    case (Some v)
    with Inr assms(2) have tv: "truthy v" by (simp add: no_source_def)
    show ?thesis
    proof (cases v)
      case (JArray xs)
      show ?thesis
      proof (cases "find_source name xs")
        case (Inl e)
        with assms(1) Inr Some JArray tv show ?thesis by (simp add: GET_def)
      next
        case (Inr found)
        note f = this
        show ?thesis
        proof (cases found)
          case None
          with assms(1) \<open>icestats_source json = Inr src\<close> Some JArray tv f show ?thesis
            by (simp add: GET_def)
        next
          case (Some x)
          with assms(1) \<open>icestats_source json = Inr src\<close> \<open>src = Some v\<close> JArray tv f
          show ?thesis
            by (cases "assign x ''listenurl'' (JString url)") (auto simp: GET_def)
        qed
      qed
    qed (use assms(1) Inr Some tv in \<open>simp_all add: GET_def\<close>)
  qed
qed

text \<open>
  Claim C1, amended. The handler answers 404 exactly when the upstream document has no
  usable source list (\<^verbatim>\<open>icestats\<close> missing or null, or its \<^verbatim>\<open>source\<close> missing or
  falsy), and the answer is then the text \<^verbatim>\<open>No data found\<close> typed as JSON. A document
  whose source list is there never gets a 404, whether or not the list has an entry of
  the configured name.
\<close>

theorem GET_404_iff:
  "(\<exists>r. GET name url json = Inr r \<and> status r = 404) = no_source json \<and>
   (no_source json \<longrightarrow> GET name url json = Inr notFound)"
proof (intro conjI iffI impI)
  assume "no_source json"
  then show g: "GET name url json = Inr notFound" by (rule GET_no_source)
  then show "\<exists>r. GET name url json = Inr r \<and> status r = 404"
    by (simp add: notFound_def)
next
  assume "\<exists>r. GET name url json = Inr r \<and> status r = 404"
  then obtain r where r: "GET name url json = Inr r" "status r = 404" by blast
  show "no_source json"
  proof (rule ccontr)
    assume "\<not> no_source json"
    with r(1) have "status r = 200" by (rule GET_found_status)
    with r(2) show False by simp
  qed
qed

text \<open>An upstream document whose \<^verbatim>\<open>icestats\<close> lists no source at all.\<close>

theorem GET_404_iff_witness:
  "no_source (JObject [(''icestats'', JObject [(''admin'', JString ''icemaster@localhost'')])]) \<and>
   GET_chiptune (JObject [(''icestats'', JObject [(''admin'', JString ''icemaster@localhost'')])])
   = Inr \<lparr>status = 404, body = Text ''No data found'', contentType = ''application/json''\<rparr>"
  using GET_404_iff [of "''Chiptune Radio''" "''https://krelez.ruohki.dev/chip/stream''"
      "JObject [(''icestats'', JObject [(''admin'', JString ''icemaster@localhost'')])]"]
  by (simp add: no_source_def icestats_source_def GET_chiptune_def notFound_def)

text \<open>
  The claim as written fails: the upstream lists one source, of another name, and the
  handler of the vapor route throws instead of answering 404.
\<close>

theorem GET_no_match_counterexample:
  "no_entry ''Vaporwave Radio''
     (JObject [(''icestats'', JObject [(''source'',
        JArray [JObject [(''server_name'', JString ''Chiptune Radio'')]])])]) \<and>
   GET_vaporwave
     (JObject [(''icestats'', JObject [(''source'',
        JArray [JObject [(''server_name'', JString ''Chiptune Radio'')]])])])
   = Inl TypeError"
  by (simp add: no_entry_def icestats_source_def GET_vaporwave_def GET_def truthy_def)

section \<open>Reachable states of the players\<close>

text \<open>Unfolding a run on a concrete list of events.\<close>

lemmas chip_eval = chip_run_def chip_step_def chip_handle_def chip_render_def chip_init_def
  chiptuneVolume_def initialVolume_def truthy_field_def
  togglePlayPause_def startPlayback_settled_def play_settled_def fetchInitialMetadata_settled_def
  onEnded_def onError_def consoleError_def toggleMute_def handleVolumeChange_def
  timer_cleanup_def timer_effect_def chip_cleanup_def chip_effect_def setInterval_def
  clearInterval_def fetchAndUpdateTrack_settled_def updateTrack_def trackId_def Let_def

subsection \<open>What the handlers leave alone\<close>

lemma updateTrack_frame:
  "intervals (updateTrack c now d s) = intervals s"
  "timerRef (updateTrack c now d s) = timerRef s"
  "nextId (updateTrack c now d s) = nextId s"
  "audioRef (updateTrack c now d s) = audioRef s"
  "isPlaying (updateTrack c now d s) = isPlaying s"
  "playbackTime (updateTrack c now d s) = playbackTime s"
  by (simp_all add: updateTrack_def Let_def split: option.splits)

lemma updateTrack_chip_frame:
  "pollingInterval (updateTrack c now d s) = pollingInterval s"
  by (simp add: updateTrack_def Let_def split: option.splits)

lemma player_handle_frame:
  "intervals (player_handle ev s) = intervals s \<and>
   timerRef (player_handle ev s) = timerRef s \<and>
   nextId (player_handle ev s) = nextId s \<and>
   audioRef (player_handle ev s) = audioRef s"
  by (cases ev) (simp_all add: togglePlayPause_def toggleMute_def handleVolumeChange_def
      startPlayback_settled_def play_settled_def fetchInitialMetadata_settled_def onEnded_def
      onError_def consoleError_def split: option.splits timer_kind.splits)

lemma player_handle_chip_frame:
  "pollingInterval (player_handle ev s) = pollingInterval s"
  by (cases ev) (simp_all add: togglePlayPause_def toggleMute_def handleVolumeChange_def
      startPlayback_settled_def play_settled_def fetchInitialMetadata_settled_def onEnded_def
      onError_def consoleError_def split: option.splits timer_kind.splits)

lemma chip_handle_frame:
  "intervals (chip_handle ev s) = intervals s \<and>
   timerRef (chip_handle ev s) = timerRef s \<and>
   nextId (chip_handle ev s) = nextId s \<and>
   audioRef (chip_handle ev s) = audioRef s \<and>
   pollingInterval (chip_handle ev s) = pollingInterval s"
  by (cases ev) (simp_all add: chip_handle_def player_handle_frame player_handle_chip_frame
      fetchAndUpdateTrack_settled_def updateTrack_frame updateTrack_chip_frame consoleError_def
      Let_def del: player_handle.simps split: option.splits timer_kind.splits)

lemma updateTrack_track:
  "trackObj (updateTrack c now d s) = trackObj s \<Longrightarrow>
   currentTrack (updateTrack c now d s) = currentTrack s"
  by (auto simp: updateTrack_def Let_def split: option.splits if_splits)

lemma player_handle_track:
  "trackObj (player_handle ev s) = trackObj s \<Longrightarrow>
   currentTrack (player_handle ev s) = currentTrack s"
  by (cases ev) (auto simp: togglePlayPause_def toggleMute_def handleVolumeChange_def
      startPlayback_settled_def play_settled_def fetchInitialMetadata_settled_def onEnded_def
      onError_def consoleError_def split: option.splits timer_kind.splits if_splits)

lemma chip_handle_track:
  "trackObj (chip_handle ev s) = trackObj s \<Longrightarrow>
   currentTrack (chip_handle ev s) = currentTrack s"
proof (cases ev)
  case (FetchSettled k r now)
  assume t: "trackObj (chip_handle ev s) = trackObj s"
  show ?thesis
  proof (cases "k < length (pending s)")
    case False
    with FetchSettled show ?thesis
      by (simp add: chip_handle_def fetchAndUpdateTrack_settled_def)
  next
    case True
    show ?thesis
    proof (cases r)
      case None
      with True FetchSettled show ?thesis
        by (simp add: chip_handle_def fetchAndUpdateTrack_settled_def consoleError_def Let_def)
    next
      case (Some d)
      let ?s1 = "s\<lparr>pending := take k (pending s) @ drop (Suc k) (pending s)\<rparr>"
      let ?c = "snd (pending s ! k)"
      have h: "chip_handle ev s = updateTrack ?c now d ?s1"
        using True FetchSettled Some
        by (simp add: chip_handle_def fetchAndUpdateTrack_settled_def Let_def)
      have "trackObj (updateTrack ?c now d ?s1) = trackObj ?s1" using t h by simp
      then have "currentTrack (updateTrack ?c now d ?s1) = currentTrack ?s1"
        by (rule updateTrack_track)
      then show ?thesis using h by simp
    qed
  qed
next
  case (TimerFired i)
  assume "trackObj (chip_handle ev s) = trackObj s"
  then show ?thesis
    using TimerFired player_handle_track [of ev s]
    by (simp add: chip_handle_def del: player_handle.simps split: option.splits timer_kind.splits)
qed (use player_handle_track [of ev s] in \<open>simp_all add: chip_handle_def\<close>)

lemma chip_render_inv:
  assumes "chip_inv old" and "intervals new = intervals old" and "timerRef new = timerRef old"
    and "nextId new = nextId old" and "audioRef new = audioRef old"
    and "pollingInterval new = pollingInterval old"
    and "trackObj new = trackObj old \<Longrightarrow> currentTrack new = currentTrack old"
  shows "chip_inv (chip_render old new)"
proof (cases "isPlaying old")
  case True
  with assms(1) obtain p t e where
    o: "intervals old = [(p, Poll e (currentTrack old)), (t, Elapsed)]"
    "pollingInterval old = Some p" "timerRef old = Some t" "p \<noteq> t" "t < nextId old"
    "p < nextId old" "audioRef old"
    by (auto simp: chip_inv_def)
  show ?thesis
  proof (cases "isPlaying new")
    case True
    show ?thesis
    proof (cases "trackObj new = trackObj old")
      case same: True
      with assms(7) have "currentTrack new = currentTrack old" by simp
      with same True \<open>isPlaying old\<close> o assms(2-6) show ?thesis
        by (simp add: chip_inv_def chip_render_def)
    next
      case False
      with True \<open>isPlaying old\<close> o assms(2-6) show ?thesis
        by (simp add: chip_inv_def chip_render_def chip_cleanup_def chip_effect_def
            setInterval_def clearInterval_def Let_def)
    qed
  next
    case False
    with \<open>isPlaying old\<close> o assms(2-6) show ?thesis
      by (simp add: chip_inv_def chip_render_def timer_cleanup_def timer_effect_def
          chip_cleanup_def chip_effect_def setInterval_def clearInterval_def Let_def)
  qed
next
  case False
  with assms(1) have o: "intervals old = []" "pollingInterval old = None" "audioRef old"
    by (auto simp: chip_inv_def)
  show ?thesis
  proof (cases "isPlaying new")
    case True
    with \<open>\<not> isPlaying old\<close> o assms(2-6) show ?thesis
      by (simp add: chip_inv_def chip_render_def timer_cleanup_def timer_effect_def
          chip_cleanup_def chip_effect_def setInterval_def clearInterval_def Let_def
          split: option.splits)
  next
    case False
    with \<open>\<not> isPlaying old\<close> o assms(2-6) show ?thesis
      by (simp add: chip_inv_def chip_render_def chip_cleanup_def chip_effect_def
          setInterval_def clearInterval_def Let_def)
  qed
qed

lemma chip_step_inv: "chip_inv s \<Longrightarrow> chip_inv (chip_step ev s)"
  unfolding chip_step_def
  by (rule chip_render_inv) (simp_all add: chip_handle_frame chip_handle_track)

lemma chip_init_inv: "chip_inv (chip_init ls)"
  by (simp add: chip_inv_def chip_init_def)

lemma chip_run_snoc: "chip_run (evs @ [ev]) s = chip_step ev (chip_run evs s)"
  by (simp add: chip_run_def)

lemma chip_run_inv: "chip_inv (chip_run evs (chip_init ls))"
proof (induction evs rule: rev_induct)
  case Nil
  show ?case by (simp add: chip_run_def chip_init_inv)
next
  case (snoc ev evs)
  then show ?case by (simp add: chip_run_snoc chip_step_inv)
qed

lemma chip_inv_handles:
  "chip_inv s \<Longrightarrow> length (chip_handles s) = (if isPlaying s then 1 else 0)"
  by (auto simp: chip_inv_def chip_handles_def)

subsection \<open>The vapor player keeps its event source in step\<close>

lemma updateTrack_vapor_frame:
  "openSources (updateTrack c now d s) = openSources s \<and>
   eventSourceRef (updateTrack c now d s) = eventSourceRef s"
  by (simp add: updateTrack_def Let_def split: option.splits)

lemma player_handle_vapor_frame:
  "openSources (player_handle ev s) = openSources s \<and>
   eventSourceRef (player_handle ev s) = eventSourceRef s"
  by (cases ev) (simp_all add: togglePlayPause_def toggleMute_def handleVolumeChange_def
      startPlayback_settled_def play_settled_def fetchInitialMetadata_settled_def onEnded_def
      onError_def consoleError_def split: option.splits timer_kind.splits)

lemma vapor_render_inv:
  assumes "vapor_inv old" and "openSources new = openSources old"
    and "eventSourceRef new = eventSourceRef old"
    and "trackObj new = trackObj old \<Longrightarrow> currentTrack new = currentTrack old"
  shows "vapor_inv (vapor_render old new)"
proof (cases "isPlaying new \<noteq> isPlaying old \<or> trackObj new \<noteq> trackObj old")
  case False
  then have "vapor_render old new = new" by (simp add: vapor_render_def)
  moreover have "vapor_inv new"
    using assms False by (auto simp: vapor_inv_def split: option.splits)
  ultimately show ?thesis by simp
next
  case True
  with assms(1-3) show ?thesis
    by (auto simp: vapor_inv_def vapor_render_def vapor_cleanup_def setupSSE_def closeSource_def
        timer_cleanup_def timer_effect_def setInterval_def clearInterval_def Let_def
        split: option.splits)
qed

lemma vapor_step_inv:
  assumes "vapor_inv s"
  shows "vapor_inv (vapor_step ev s)"
proof (cases "\<exists>e. ev = SourceError e")
  case True
  then obtain e where ev: "ev = SourceError e" by blast
  have h: "isPlaying (onerror e s) = isPlaying s" "trackObj (onerror e s) = trackObj s"
    by (simp_all add: onerror_def closeSource_def consoleError_def split: option.splits)
  have "vapor_inv (onerror e s)"
    using assms
    by (auto simp: vapor_inv_def onerror_def closeSource_def consoleError_def
        split: option.splits if_splits)
  then show ?thesis using h by (simp add: ev vapor_step_def vapor_handle_def vapor_render_def)
next
  case False
  have f: "openSources (vapor_handle ev s) = openSources s \<and>
           eventSourceRef (vapor_handle ev s) = eventSourceRef s"
    using False
    by (cases ev) (simp_all add: vapor_handle_def onmessage_def player_handle_vapor_frame
        updateTrack_vapor_frame consoleError_def del: player_handle.simps split: option.splits)
  have t: "currentTrack (vapor_handle ev s) = currentTrack s"
    if "trackObj (vapor_handle ev s) = trackObj s"
    using False that
    by (cases ev) (auto simp: vapor_handle_def onmessage_def player_handle_track
        updateTrack_track consoleError_def simp del: player_handle.simps split: option.splits)
  show ?thesis unfolding vapor_step_def using assms f t by (intro vapor_render_inv) simp_all
qed

lemma vapor_init_inv: "vapor_inv (vapor_init ls)"
  by (simp add: vapor_inv_def vapor_init_def)

lemma vapor_run_snoc: "vapor_run (evs @ [ev]) s = vapor_step ev (vapor_run evs s)"
  by (simp add: vapor_run_def)

lemma vapor_run_inv: "vapor_inv (vapor_run evs (vapor_init ls))"
proof (induction evs rule: rev_induct)
  case Nil
  show ?case by (simp add: vapor_run_def vapor_init_inv)
next
  case (snoc ev evs)
  then show ?case by (simp add: vapor_run_snoc vapor_step_inv)
qed

lemma vapor_inv_handles:
  "vapor_inv s \<Longrightarrow> length (vapor_handles s) \<le> (if isPlaying s then 1 else 0)"
  by (auto simp: vapor_inv_def vapor_handles_def split: option.splits)

subsection \<open>Subscription handles\<close>

lemmas vapor_eval = vapor_run_def vapor_step_def vapor_handle_def vapor_render_def vapor_init_def
  vaporVolume_def initialVolume_def truthy_field_def
  togglePlayPause_def startPlayback_settled_def play_settled_def fetchInitialMetadata_settled_def
  onEnded_def onError_def consoleError_def toggleMute_def handleVolumeChange_def
  timer_cleanup_def timer_effect_def vapor_cleanup_def setupSSE_def closeSource_def
  setInterval_def clearInterval_def onmessage_def onerror_def updateTrack_def trackId_def
  vapor_handles_def Let_def

lemma vapor_render_player:
  "isPlaying (vapor_render old new) = isPlaying new \<and>
   trackObj (vapor_render old new) = trackObj new \<and>
   currentTrack (vapor_render old new) = currentTrack new \<and>
   trackHistory (vapor_render old new) = trackHistory new \<and>
   lastTrackRef (vapor_render old new) = lastTrackRef new"
  by (simp add: vapor_render_def timer_cleanup_def timer_effect_def vapor_cleanup_def
      setupSSE_def closeSource_def setInterval_def clearInterval_def Let_def
      split: option.splits)

lemma vapor_render_same:
  "isPlaying new = isPlaying old \<Longrightarrow> trackObj new = trackObj old \<Longrightarrow>
   vapor_render old new = new"
  by (simp add: vapor_render_def)

lemma vapor_render_resubscribed:
  "isPlaying new \<noteq> isPlaying old \<or> trackObj new \<noteq> trackObj old \<Longrightarrow>
   (eventSourceRef (vapor_render old new) \<noteq> None) = isPlaying new"
  by (auto simp: vapor_render_def timer_cleanup_def timer_effect_def vapor_cleanup_def
      setupSSE_def closeSource_def setInterval_def clearInterval_def Let_def
      split: option.splits)

lemma vapor_inv_exact:
  "vapor_inv s \<Longrightarrow>
   (length (vapor_handles s) = (if isPlaying s then 1 else 0))
     = ((eventSourceRef s \<noteq> None) = isPlaying s)"
  by (auto simp: vapor_inv_def vapor_handles_def split: option.splits)

lemma vapor_handle_ref:
  "\<forall>e. ev \<noteq> SourceError e \<Longrightarrow> eventSourceRef (vapor_handle ev s) = eventSourceRef s"
  by (cases ev) (simp_all add: vapor_handle_def onmessage_def player_handle_vapor_frame
      updateTrack_vapor_frame consoleError_def del: player_handle.simps split: option.splits)

lemma vapor_step_resubscribed:
  assumes "vapor_inv s"
    and "isPlaying (vapor_step ev s) \<noteq> isPlaying s \<or> trackObj (vapor_step ev s) \<noteq> trackObj s"
  shows "length (vapor_handles (vapor_step ev s)) = (if isPlaying (vapor_step ev s) then 1 else 0)"
proof -
  have i: "vapor_inv (vapor_step ev s)" using assms(1) by (rule vapor_step_inv)
  have c: "isPlaying (vapor_handle ev s) \<noteq> isPlaying s \<or> trackObj (vapor_handle ev s) \<noteq> trackObj s"
    using assms(2) by (simp add: vapor_step_def vapor_render_player)
  have "(eventSourceRef (vapor_step ev s) \<noteq> None) = isPlaying (vapor_step ev s)"
    unfolding vapor_step_def using vapor_render_resubscribed [OF c]
    by (simp add: vapor_render_player)
  then show ?thesis using vapor_inv_exact [OF i] by simp
qed

lemma vapor_step_exact:
  assumes "vapor_inv s" and "\<forall>e. ev \<noteq> SourceError e"
    and "length (vapor_handles s) = (if isPlaying s then 1 else 0)"
  shows "length (vapor_handles (vapor_step ev s)) = (if isPlaying (vapor_step ev s) then 1 else 0)"
proof (cases "isPlaying (vapor_step ev s) \<noteq> isPlaying s \<or> trackObj (vapor_step ev s) \<noteq> trackObj s")
  case True
  with assms(1) show ?thesis by (rule vapor_step_resubscribed)
next
  case False
  then have k: "isPlaying (vapor_handle ev s) = isPlaying s"
    "trackObj (vapor_handle ev s) = trackObj s"
    by (simp_all add: vapor_step_def vapor_render_player)
  then have st: "vapor_step ev s = vapor_handle ev s"
    by (simp add: vapor_step_def vapor_render_same)
  have i: "vapor_inv (vapor_step ev s)" using assms(1) by (rule vapor_step_inv)
  have "(eventSourceRef s \<noteq> None) = isPlaying s"
    using assms(3) vapor_inv_exact [OF assms(1)] by simp
  then have "(eventSourceRef (vapor_step ev s) \<noteq> None) = isPlaying (vapor_step ev s)"
    unfolding st using vapor_handle_ref [OF assms(2), of s] k(1) by simp
  then show ?thesis using vapor_inv_exact [OF i] by simp
qed

lemma vapor_run_exact:
  "\<forall>e. SourceError e \<notin> set evs \<Longrightarrow>
   length (vapor_handles (vapor_run evs (vapor_init ls)))
     = (if isPlaying (vapor_run evs (vapor_init ls)) then 1 else 0)"
proof (induction evs rule: rev_induct)
  case Nil
  show ?case by (simp add: vapor_run_def vapor_init_def vapor_handles_def)
next
  case (snoc ev evs)
  then have "\<forall>e. ev \<noteq> SourceError e" and "\<forall>e. SourceError e \<notin> set evs" by auto
  with snoc.IH show ?case
    unfolding vapor_run_snoc by (intro vapor_step_exact vapor_run_inv) simp_all
qed

text \<open>
  Claim C4, amended. In every reachable state of the chiptune player exactly one polling
  timer is live if the player is playing and none otherwise. In every reachable state of
  the vapor player at most one event source is open, and none unless the player is
  playing. For the vapor player exactly one is open if and only if it is playing
  \<^item> in every state reached without a transport error,
  \<^item> after every step that changes \<^verbatim>\<open>isPlaying\<close> or stores a new current track (the
    subscription is set up again), and
  \<^item> after every step other than a transport error taken from a state where it holds.
  So a playing vapor player is without a handle only from a transport error until the
  next change of \<^verbatim>\<open>isPlaying\<close> or of the current track.
\<close>

theorem subscription_handles:
  assumes "c = chip_run evs (chip_init ls)" and "v = vapor_run evs' (vapor_init ls')"
  shows "length (chip_handles c) = (if isPlaying c then 1 else 0) \<and>
         length (vapor_handles v) \<le> (if isPlaying v then 1 else 0) \<and>
         ((\<forall>e. SourceError e \<notin> set evs') \<longrightarrow>
            length (vapor_handles v) = (if isPlaying v then 1 else 0)) \<and>
         (isPlaying (vapor_step ev v) \<noteq> isPlaying v \<or> trackObj (vapor_step ev v) \<noteq> trackObj v \<longrightarrow>
            length (vapor_handles (vapor_step ev v))
              = (if isPlaying (vapor_step ev v) then 1 else 0)) \<and>
         ((\<forall>e. ev \<noteq> SourceError e) \<and>
          length (vapor_handles v) = (if isPlaying v then 1 else 0) \<longrightarrow>
            length (vapor_handles (vapor_step ev v))
              = (if isPlaying (vapor_step ev v) then 1 else 0))"
proof -
  have i: "vapor_inv v" unfolding assms(2) by (rule vapor_run_inv)
  have "length (chip_handles c) = (if isPlaying c then 1 else 0)"
    unfolding assms(1) using chip_run_inv by (rule chip_inv_handles)
  moreover have "length (vapor_handles v) \<le> (if isPlaying v then 1 else 0)"
    using i by (rule vapor_inv_handles)
  moreover have "length (vapor_handles v) = (if isPlaying v then 1 else 0)"
    if "\<forall>e. SourceError e \<notin> set evs'"
    unfolding assms(2) using that by (rule vapor_run_exact)
  moreover have "length (vapor_handles (vapor_step ev v))
                   = (if isPlaying (vapor_step ev v) then 1 else 0)"
    if "isPlaying (vapor_step ev v) \<noteq> isPlaying v \<or> trackObj (vapor_step ev v) \<noteq> trackObj v"
    using i that by (rule vapor_step_resubscribed)
  moreover have "length (vapor_handles (vapor_step ev v))
                   = (if isPlaying (vapor_step ev v) then 1 else 0)"
    if "\<forall>e. ev \<noteq> SourceError e" "length (vapor_handles v) = (if isPlaying v then 1 else 0)"
    using i that by (rule vapor_step_exact)
  ultimately show ?thesis by blast
qed

text \<open>
  A vapor player after its autoplay; a chiptune player paused after its autoplay; a vapor
  player that lost its event source, was paused and is played again.
\<close>

theorem subscription_handles_witness:
  "isPlaying (vapor_run [AutoplaySettled True] (vapor_init [])) \<and>
   length (vapor_handles (vapor_run [AutoplaySettled True] (vapor_init []))) = 1 \<and>
   \<not> isPlaying (chip_run [AutoplaySettled True, TogglePlayPause] (chip_init [])) \<and>
   length (chip_handles (chip_run [AutoplaySettled True, TogglePlayPause] (chip_init []))) = 0 \<and>
   isPlaying (vapor_step TogglePlayPause
     (vapor_run [AutoplaySettled True, SourceError 1, TogglePlayPause] (vapor_init []))) \<and>
   length (vapor_handles (vapor_step TogglePlayPause
     (vapor_run [AutoplaySettled True, SourceError 1, TogglePlayPause] (vapor_init [])))) = 1"
proof -
  have p: "isPlaying (vapor_run [AutoplaySettled True] (vapor_init []))"
    by (simp add: vapor_eval)
  have q: "\<not> isPlaying (chip_run [AutoplaySettled True, TogglePlayPause] (chip_init []))"
    by (simp add: chip_eval)
  have n: "\<forall>e. SourceError e \<notin> set [AutoplaySettled True]" by simp
  have r: "\<not> isPlaying (vapor_run [AutoplaySettled True, SourceError 1, TogglePlayPause]
                          (vapor_init []))"
    "isPlaying (vapor_step TogglePlayPause
       (vapor_run [AutoplaySettled True, SourceError 1, TogglePlayPause] (vapor_init [])))"
    by (simp_all add: vapor_eval)
  from subscription_handles [OF refl refl, of "[AutoplaySettled True, TogglePlayPause]" "[]"
      "[AutoplaySettled True]" "[]" ev]
    subscription_handles [OF refl refl, of "[]" "[]"
      "[AutoplaySettled True, SourceError 1, TogglePlayPause]" "[]" TogglePlayPause]
    p q n r
  show ?thesis by simp
qed

text \<open>
  The claim as written fails: after a transport error on its event source the vapor
  player is playing and has no handle.
\<close>

theorem push_error_counterexample:
  "isPlaying (vapor_run [AutoplaySettled True, SourceError 1] (vapor_init [])) \<and>
   vapor_handles (vapor_run [AutoplaySettled True, SourceError 1] (vapor_init [])) = []"
  by (simp add: vapor_run_def vapor_step_def vapor_handle_def vapor_render_def vapor_init_def
      startPlayback_settled_def onerror_def closeSource_def consoleError_def vapor_cleanup_def
      setupSSE_def timer_cleanup_def timer_effect_def setInterval_def clearInterval_def
      vapor_handles_def Let_def)

subsection \<open>The history ledger of the vapor player\<close>

lemma updateTrack_playing: "isPlaying (updateTrack c now d s) = isPlaying s"
  by (simp add: updateTrack_def Let_def split: option.splits)

lemma message_connected:
  assumes "vapor_inv s" and "eventSourceRef s \<noteq> None"
  shows "vapor_inv (message now d s) \<and> eventSourceRef (message now d s) \<noteq> None \<and>
         lastTrackRef (message now d s) = lastTrackRef (updateTrack (currentTrack s) now d s) \<and>
         currentTrack (message now d s) = currentTrack (updateTrack (currentTrack s) now d s) \<and>
         trackHistory (message now d s) = trackHistory (updateTrack (currentTrack s) now d s)"
proof -
  from assms(2) obtain e where e: "eventSourceRef s = Some e" by blast
  with assms(1) have o: "openSources s = [(e, currentTrack s)]" and p: "isPlaying s"
    by (simp_all add: vapor_inv_def)
  have m: "message now d s = vapor_step (Message e (Some d) now) s"
    by (simp add: message_def e)
  have h: "vapor_handle (Message e (Some d) now) s = updateTrack (currentTrack s) now d s"
    by (simp add: vapor_handle_def onmessage_def o)
  have x: "length (vapor_handles s) = (if isPlaying s then 1 else 0)"
    using vapor_inv_exact [OF assms(1)] assms(2) p by simp
  have i: "vapor_inv (message now d s)" unfolding m using assms(1) by (rule vapor_step_inv)
  have q: "isPlaying (message now d s)"
    unfolding m by (simp add: vapor_step_def vapor_render_player h updateTrack_playing p)
  have "length (vapor_handles (message now d s)) = (if isPlaying (message now d s) then 1 else 0)"
    unfolding m using assms(1) _ x by (rule vapor_step_exact) simp
  then have "eventSourceRef (message now d s) \<noteq> None"
    using vapor_inv_exact [OF i] q by simp
  then show ?thesis
    using i by (simp add: m vapor_step_def vapor_render_player h)
qed

lemma message_transition:
  assumes "vapor_inv s" and "eventSourceRef s \<noteq> None"
    and "transitions (lastTrackRef s) (nd # nds)"
  shows "lastTrackRef (message (fst nd) (snd nd) s)
           = Some (trackId (the (data_artist (snd nd))) (the (data_title (snd nd))))"
    and "currentTrack (message (fst nd) (snd nd) s)
           = Some \<lparr>artist = the (data_artist (snd nd)), title = the (data_title (snd nd))\<rparr>"
    and "trackHistory (message (fst nd) (snd nd) s)
           = (case currentTrack s of
                None \<Rightarrow> trackHistory s
              | Some c \<Rightarrow>
                  take 3 (\<lparr>h_title = title c, h_artist = artist c, startedAt = fst nd - 1000\<rparr>
                          # trackHistory s))"
    and "transitions (lastTrackRef (message (fst nd) (snd nd) s)) nds"
    and "vapor_inv (message (fst nd) (snd nd) s)"
    and "eventSourceRef (message (fst nd) (snd nd) s) \<noteq> None"
  using assms(3) message_connected [OF assms(1,2), of "fst nd" "snd nd"]
  by (simp_all add: updateTrack_def Let_def split: option.splits)

lemma messages_append: "messages (pre @ nds) s = messages nds (messages pre s)"
  by (induction pre arbitrary: s) simp_all

lemma messages_transitions:
  "vapor_inv s \<Longrightarrow> eventSourceRef s \<noteq> None \<Longrightarrow> transitions (lastTrackRef s) (pre @ nds) \<Longrightarrow>
   vapor_inv (messages pre s) \<and> eventSourceRef (messages pre s) \<noteq> None \<and>
   transitions (lastTrackRef (messages pre s)) nds"
proof (induction pre arbitrary: s)
  case Nil
  then show ?case by simp
next
  case (Cons nd pre)
  from Cons.prems(3) have t: "transitions (lastTrackRef s) (nd # (pre @ nds))" by simp
  show ?case
    using Cons.IH [OF message_transition(5,6,4) [OF Cons.prems(1,2) t]] by simp
qed

lemma messages_four:
  assumes i: "vapor_inv s" and e: "eventSourceRef s \<noteq> None"
    and t: "transitions (lastTrackRef s) [(n1, d1), (n2, d2), (n3, d3), (n4, d4)]"
  shows "trackHistory (messages [(n1, d1), (n2, d2), (n3, d3), (n4, d4)] s) =
     [\<lparr>h_title = the (data_title d3), h_artist = the (data_artist d3), startedAt = n4 - 1000\<rparr>,
      \<lparr>h_title = the (data_title d2), h_artist = the (data_artist d2), startedAt = n3 - 1000\<rparr>,
      \<lparr>h_title = the (data_title d1), h_artist = the (data_artist d1), startedAt = n2 - 1000\<rparr>]"
proof -
  let ?s1 = "message n1 d1 s"
  let ?s2 = "message n2 d2 ?s1"
  let ?s3 = "message n3 d3 ?s2"
  let ?s4 = "message n4 d4 ?s3"
  have t1: "transitions (lastTrackRef ?s1) [(n2, d2), (n3, d3), (n4, d4)]"
    and i1: "vapor_inv ?s1" and e1: "eventSourceRef ?s1 \<noteq> None"
    and c1: "currentTrack ?s1 = Some \<lparr>artist = the (data_artist d1), title = the (data_title d1)\<rparr>"
    using message_transition(4,5,6,2) [OF i e t] by simp_all
  have t2: "transitions (lastTrackRef ?s2) [(n3, d3), (n4, d4)]"
    and i2: "vapor_inv ?s2" and e2: "eventSourceRef ?s2 \<noteq> None"
    and c2: "currentTrack ?s2 = Some \<lparr>artist = the (data_artist d2), title = the (data_title d2)\<rparr>"
    and h2: "trackHistory ?s2 =
               take 3 (\<lparr>h_title = the (data_title d1), h_artist = the (data_artist d1),
                        startedAt = n2 - 1000\<rparr> # trackHistory ?s1)"
    using message_transition(4,5,6,2,3) [OF i1 e1 t1] c1 by simp_all
  have t3: "transitions (lastTrackRef ?s3) [(n4, d4)]"
    and i3: "vapor_inv ?s3" and e3: "eventSourceRef ?s3 \<noteq> None"
    and c3: "currentTrack ?s3 = Some \<lparr>artist = the (data_artist d3), title = the (data_title d3)\<rparr>"
    and h3: "trackHistory ?s3 =
               take 3 (\<lparr>h_title = the (data_title d2), h_artist = the (data_artist d2),
                        startedAt = n3 - 1000\<rparr> # trackHistory ?s2)"
    using message_transition(4,5,6,2,3) [OF i2 e2 t2] c2 by simp_all
  have h4: "trackHistory ?s4 =
               take 3 (\<lparr>h_title = the (data_title d3), h_artist = the (data_artist d3),
                        startedAt = n4 - 1000\<rparr> # trackHistory ?s3)"
    using message_transition(3) [OF i3 e3 t3] c3 by simp
  have "trackHistory ?s4 =
     [\<lparr>h_title = the (data_title d3), h_artist = the (data_artist d3), startedAt = n4 - 1000\<rparr>,
      \<lparr>h_title = the (data_title d2), h_artist = the (data_artist d2), startedAt = n3 - 1000\<rparr>,
      \<lparr>h_title = the (data_title d1), h_artist = the (data_artist d1), startedAt = n2 - 1000\<rparr>]"
    unfolding h4 h3 h2 by (simp add: numeral_3_eq_3)
  then show ?thesis by simp
qed

text \<open>
  A vapor player that holds an event source receives four or more track transitions (any
  transitions \<open>pre\<close>, then four more): the history is then exactly the three tracks
  superseded last, the most recent first. The handler of every message captured the track
  that is current when the message arrives, because the event source is opened again
  whenever the current track changes.
\<close>

lemma vapor_history_three_most_recent:
  assumes "s = vapor_run evs (vapor_init ls)" and "eventSourceRef s \<noteq> None"
    and "transitions (lastTrackRef s) (pre @ [(n1, d1), (n2, d2), (n3, d3), (n4, d4)])"
  shows "trackHistory (messages (pre @ [(n1, d1), (n2, d2), (n3, d3), (n4, d4)]) s) =
     [\<lparr>h_title = the (data_title d3), h_artist = the (data_artist d3), startedAt = n4 - 1000\<rparr>,
      \<lparr>h_title = the (data_title d2), h_artist = the (data_artist d2), startedAt = n3 - 1000\<rparr>,
      \<lparr>h_title = the (data_title d1), h_artist = the (data_artist d1), startedAt = n2 - 1000\<rparr>]"
proof -
  have i: "vapor_inv s" unfolding assms(1) by (rule vapor_run_inv)
  from messages_transitions [OF i assms(2,3)] show ?thesis
    unfolding messages_append by (intro messages_four) simp_all
qed


lemma vapor_history_example:
  "trackHistory (messages
     [(5000, \<lparr>data_artist = Some ''A'', data_title = Some ''One''\<rparr>),
      (10000, \<lparr>data_artist = Some ''B'', data_title = Some ''Two''\<rparr>),
      (15000, \<lparr>data_artist = Some ''C'', data_title = Some ''Three''\<rparr>),
      (20000, \<lparr>data_artist = Some ''D'', data_title = Some ''Four''\<rparr>),
      (25000, \<lparr>data_artist = Some ''E'', data_title = Some ''Five''\<rparr>)]
     (vapor_run [AutoplaySettled True] (vapor_init []))) =
     [\<lparr>h_title = ''Four'', h_artist = ''D'', startedAt = 24000\<rparr>,
      \<lparr>h_title = ''Three'', h_artist = ''C'', startedAt = 19000\<rparr>,
      \<lparr>h_title = ''Two'', h_artist = ''B'', startedAt = 14000\<rparr>]"
proof -
  have e: "eventSourceRef (vapor_run [AutoplaySettled True] (vapor_init [])) \<noteq> None"
    and l: "lastTrackRef (vapor_run [AutoplaySettled True] (vapor_init [])) = None"
    by (simp_all add: vapor_eval)
  have "transitions (lastTrackRef (vapor_run [AutoplaySettled True] (vapor_init [])))
     ([(5000, \<lparr>data_artist = Some ''A'', data_title = Some ''One''\<rparr>)] @
      [(10000, \<lparr>data_artist = Some ''B'', data_title = Some ''Two''\<rparr>),
       (15000, \<lparr>data_artist = Some ''C'', data_title = Some ''Three''\<rparr>),
       (20000, \<lparr>data_artist = Some ''D'', data_title = Some ''Four''\<rparr>),
       (25000, \<lparr>data_artist = Some ''E'', data_title = Some ''Five''\<rparr>)])"
    unfolding l by (simp add: truthy_field_def trackId_def)
  from vapor_history_three_most_recent [OF refl e this] show ?thesis by simp
qed

subsection \<open>The history ledger of the chiptune player with two polls in flight\<close>

text \<open>
  Claim C8, the code at an input where it departs from the claim. The chiptune player
  shows the track \<^verbatim>\<open>One\<close> and plays; its polling timer fires while the fetch started with
  the subscription is still in flight, so two fetches that captured \<^verbatim>\<open>One\<close> are in
  flight. The fetches are answered in the order they were started, with the tracks
  \<^verbatim>\<open>Two\<close>, \<^verbatim>\<open>Three\<close>, \<^verbatim>\<open>Four\<close> and \<^verbatim>\<open>Five\<close>. When \<^verbatim>\<open>Three\<close> arrives the current
  track is \<^verbatim>\<open>Two\<close>, but the handler archives the \<^verbatim>\<open>One\<close> it captured, a second time.
  After the four transitions the history is \<^verbatim>\<open>Three\<close>, \<^verbatim>\<open>Two\<close>, \<^verbatim>\<open>One\<close>; the three tracks
  superseded last are \<^verbatim>\<open>Four\<close>, \<^verbatim>\<open>Three\<close>, \<^verbatim>\<open>Two\<close>.
\<close>

theorem stale_poll_history:
  "currentTrack (chip_run
     [InitialMetadata (Some \<lparr>data_artist = Some ''A'', data_title = Some ''One''\<rparr>),
      AutoplaySettled True, TimerFired 2,
      FetchSettled 0 (Some \<lparr>data_artist = Some ''B'', data_title = Some ''Two''\<rparr>) 10000]
     (chip_init [])) = Some \<lparr>artist = ''B'', title = ''Two''\<rparr> \<and>
   trackHistory (chip_run
     [InitialMetadata (Some \<lparr>data_artist = Some ''A'', data_title = Some ''One''\<rparr>),
      AutoplaySettled True, TimerFired 2,
      FetchSettled 0 (Some \<lparr>data_artist = Some ''B'', data_title = Some ''Two''\<rparr>) 10000,
      FetchSettled 0 (Some \<lparr>data_artist = Some ''C'', data_title = Some ''Three''\<rparr>) 15000]
     (chip_init [])) =
     [\<lparr>h_title = ''One'', h_artist = ''A'', startedAt = 14000\<rparr>,
      \<lparr>h_title = ''One'', h_artist = ''A'', startedAt = 9000\<rparr>] \<and>
   currentTrack (chip_run
     [InitialMetadata (Some \<lparr>data_artist = Some ''A'', data_title = Some ''One''\<rparr>),
      AutoplaySettled True, TimerFired 2,
      FetchSettled 0 (Some \<lparr>data_artist = Some ''B'', data_title = Some ''Two''\<rparr>) 10000,
      FetchSettled 0 (Some \<lparr>data_artist = Some ''C'', data_title = Some ''Three''\<rparr>) 15000,
      FetchSettled 0 (Some \<lparr>data_artist = Some ''D'', data_title = Some ''Four''\<rparr>) 20000,
      FetchSettled 0 (Some \<lparr>data_artist = Some ''E'', data_title = Some ''Five''\<rparr>) 25000]
     (chip_init [])) = Some \<lparr>artist = ''E'', title = ''Five''\<rparr> \<and>
   trackHistory (chip_run
     [InitialMetadata (Some \<lparr>data_artist = Some ''A'', data_title = Some ''One''\<rparr>),
      AutoplaySettled True, TimerFired 2,
      FetchSettled 0 (Some \<lparr>data_artist = Some ''B'', data_title = Some ''Two''\<rparr>) 10000,
      FetchSettled 0 (Some \<lparr>data_artist = Some ''C'', data_title = Some ''Three''\<rparr>) 15000,
      FetchSettled 0 (Some \<lparr>data_artist = Some ''D'', data_title = Some ''Four''\<rparr>) 20000,
      FetchSettled 0 (Some \<lparr>data_artist = Some ''E'', data_title = Some ''Five''\<rparr>) 25000]
     (chip_init [])) =
     [\<lparr>h_title = ''Three'', h_artist = ''C'', startedAt = 24000\<rparr>,
      \<lparr>h_title = ''Two'', h_artist = ''B'', startedAt = 19000\<rparr>,
      \<lparr>h_title = ''One'', h_artist = ''A'', startedAt = 14000\<rparr>]"
  by (simp add: chip_eval)

subsection \<open>Elapsed time\<close>

lemma chip_render_player:
  "playbackTime (chip_render old new) = playbackTime new \<and>
   isPlaying (chip_render old new) = isPlaying new \<and>
   currentTrack (chip_render old new) = currentTrack new \<and>
   trackHistory (chip_render old new) = trackHistory new"
  by (simp add: chip_render_def timer_cleanup_def timer_effect_def chip_cleanup_def
      chip_effect_def setInterval_def clearInterval_def Let_def split: option.splits)

lemma chip_render_same:
  "isPlaying new = isPlaying old \<Longrightarrow> trackObj new = trackObj old \<Longrightarrow> chip_render old new = new"
  by (simp add: chip_render_def)

lemma chip_step_toggle:
  "audioRef s \<Longrightarrow>
   isPlaying (chip_step TogglePlayPause s) = (\<not> isPlaying s) \<and>
   playbackTime (chip_step TogglePlayPause s) = playbackTime s \<and>
   currentTrack (chip_step TogglePlayPause s) = currentTrack s \<and>
   trackHistory (chip_step TogglePlayPause s) = trackHistory s"
  by (simp add: chip_step_def chip_render_player chip_handle_def togglePlayPause_def)

lemma chip_step_tick_paused:
  assumes "chip_inv s" and "\<not> isPlaying s"
  shows "chip_step (TimerFired i) s = s"
proof -
  from assms have "intervals s = []" by (simp add: chip_inv_def)
  then have "chip_handle (TimerFired i) s = s" by (simp add: chip_handle_def)
  then show ?thesis by (simp add: chip_step_def chip_render_same)
qed

lemma chip_step_tick_playing:
  assumes "chip_inv s" and "isPlaying s"
  shows "\<exists>t. timerRef s = Some t \<and> playbackTime (chip_step (TimerFired t) s) = playbackTime s + 1"
proof -
  from assms obtain p t e where o: "intervals s = [(p, Poll e (currentTrack s)), (t, Elapsed)]"
    "timerRef s = Some t" "p \<noteq> t"
    by (auto simp: chip_inv_def)
  then have "chip_handle (TimerFired t) s = s\<lparr>playbackTime := playbackTime s + 1\<rparr>"
    by (simp add: chip_handle_def)
  then have "playbackTime (chip_step (TimerFired t) s) = playbackTime s + 1"
    by (simp add: chip_step_def chip_render_player)
  with o(2) show ?thesis by blast
qed

lemma chip_step_reset:
  "playbackTime (chip_step Ended s) = 0 \<and> playbackTime (chip_step AudioError s) = 0"
  by (simp add: chip_step_def chip_render_player chip_handle_def onEnded_def onError_def
      consoleError_def)

lemma player_handle_elapsed:
  "ev \<noteq> Ended \<Longrightarrow> ev \<noteq> AudioError \<Longrightarrow> playbackTime s \<le> playbackTime (player_handle ev s)"
  by (cases ev) (simp_all add: togglePlayPause_def toggleMute_def handleVolumeChange_def
      startPlayback_settled_def play_settled_def fetchInitialMetadata_settled_def
      consoleError_def split: option.splits timer_kind.splits)

lemma chip_step_elapsed:
  assumes "ev \<noteq> Ended" and "ev \<noteq> AudioError"
  shows "playbackTime s \<le> playbackTime (chip_step ev s)"
proof -
  have "playbackTime s \<le> playbackTime (chip_handle ev s)"
    using assms player_handle_elapsed [OF assms, of s]
    by (cases ev) (simp_all add: chip_handle_def fetchAndUpdateTrack_settled_def
        updateTrack_frame consoleError_def Let_def del: player_handle.simps
        split: option.splits timer_kind.splits)
  then show ?thesis by (simp add: chip_step_def chip_render_player)
qed

text \<open>
  Claim C9. In a reachable playing state of the chiptune player, pausing keeps
  \<^verbatim>\<open>playbackTime\<close>, the current track and the history; no timer changes the paused
  player; playing again keeps \<^verbatim>\<open>playbackTime\<close> and the elapsed-time timer then counts on
  from it. In any state the \<^verbatim>\<open>onEnded\<close> and \<^verbatim>\<open>onError\<close> handlers set \<^verbatim>\<open>playbackTime\<close> to
  zero and no other event lowers it.
\<close>

theorem pause_preserves_elapsed:
  assumes "s = chip_run evs (chip_init ls)" and "isPlaying s"
    and "s1 = chip_step TogglePlayPause s" and "s2 = chip_step TogglePlayPause s1"
  shows "\<not> isPlaying s1 \<and> playbackTime s1 = playbackTime s \<and>
         currentTrack s1 = currentTrack s \<and> trackHistory s1 = trackHistory s \<and>
         chip_step (TimerFired i) s1 = s1 \<and>
         isPlaying s2 \<and> playbackTime s2 = playbackTime s \<and>
         (\<exists>t. timerRef s2 = Some t \<and>
              playbackTime (chip_step (TimerFired t) s2) = playbackTime s + 1) \<and>
         playbackTime (chip_step Ended s') = 0 \<and>
         playbackTime (chip_step AudioError s') = 0 \<and>
         (ev \<noteq> Ended \<and> ev \<noteq> AudioError \<longrightarrow> playbackTime s' \<le> playbackTime (chip_step ev s'))"
proof -
  have i: "chip_inv s" unfolding assms(1) by (rule chip_run_inv)
  then have a: "audioRef s" by (simp add: chip_inv_def)
  have i1: "chip_inv s1" unfolding assms(3) using i by (rule chip_step_inv)
  then have a1: "audioRef s1" by (simp add: chip_inv_def)
  have i2: "chip_inv s2" unfolding assms(4) using i1 by (rule chip_step_inv)
  have p1: "\<not> isPlaying s1" "playbackTime s1 = playbackTime s"
    "currentTrack s1 = currentTrack s" "trackHistory s1 = trackHistory s"
    unfolding assms(3) using chip_step_toggle [OF a] assms(2) by simp_all
  have p2: "isPlaying s2" "playbackTime s2 = playbackTime s"
    unfolding assms(4) using chip_step_toggle [OF a1] p1 by simp_all
  have t1: "chip_step (TimerFired i) s1 = s1"
    using i1 p1(1) by (rule chip_step_tick_paused)
  have t2: "\<exists>t. timerRef s2 = Some t \<and>
              playbackTime (chip_step (TimerFired t) s2) = playbackTime s + 1"
    using chip_step_tick_playing [OF i2 p2(1)] p2(2) by simp
  show ?thesis
    using p1 p2 t1 t2 chip_step_reset [of s'] chip_step_elapsed [of ev s'] by blast
qed

text \<open>A player that has played for two seconds is paused and played again.\<close>

theorem pause_preserves_elapsed_witness:
  "isPlaying (chip_run [AutoplaySettled True, TimerFired 1, TimerFired 1] (chip_init [])) \<and>
   playbackTime (chip_run [AutoplaySettled True, TimerFired 1, TimerFired 1]
                   (chip_init [])) = 2 \<and>
   playbackTime (chip_step TogglePlayPause
      (chip_run [AutoplaySettled True, TimerFired 1, TimerFired 1] (chip_init []))) = 2 \<and>
   playbackTime (chip_step TogglePlayPause (chip_step TogglePlayPause
      (chip_run [AutoplaySettled True, TimerFired 1, TimerFired 1] (chip_init [])))) = 2"
proof -
  let ?s = "chip_run [AutoplaySettled True, TimerFired 1, TimerFired 1] (chip_init [])"
  have p: "isPlaying ?s" and e: "playbackTime ?s = 2" by (simp_all add: chip_eval)
  from pause_preserves_elapsed [OF refl p refl refl] p e show ?thesis by simp
qed

subsection \<open>A rejected manual play\<close>

text \<open>
  Claim C2, the code at an input where it departs from the claim. Autoplay is rejected
  and the listener presses play: \<^verbatim>\<open>isPlaying\<close> is true while the promise of \<^verbatim>\<open>play()\<close> is
  still pending, and when that promise is rejected the failure is logged and
  \<^verbatim>\<open>isPlaying\<close> stays true.
\<close>

theorem manual_play_rejected:
  "isPlaying (chip_run [AutoplaySettled False, TogglePlayPause] (chip_init [])) \<and>
   playPending (chip_run [AutoplaySettled False, TogglePlayPause] (chip_init [])) = 1 \<and>
   isPlaying (chip_run [AutoplaySettled False, TogglePlayPause, PlaySettled False]
                (chip_init [])) \<and>
   console (chip_run [AutoplaySettled False, TogglePlayPause, PlaySettled False]
              (chip_init [])) = [''Autoplay failed:'', ''Playback failed:'']"
  by (simp add: chip_eval)

subsection \<open>A late response for a cleaned-up subscription\<close>

text \<open>
  Claim C3, the code at an input where it departs from the claim. The subscription
  started by autoplay has a fetch in flight when the listener pauses and plays again.
  The fetch of the new subscription settles first, with the track \<^verbatim>\<open>A2 - X2\<close>. The
  fetch still in flight belongs to an instance whose \<^verbatim>\<open>isUnmounted\<close> is set; when it
  settles with \<^verbatim>\<open>A1 - X1\<close>, it replaces the current track and the last-seen id and
  archives the track it captured a second time.
\<close>

theorem stale_fetch_mutates_state:
  "fst (pending (chip_run
       [InitialMetadata (Some \<lparr>data_artist = Some ''A0'', data_title = Some ''X0''\<rparr>),
        AutoplaySettled True, TogglePlayPause, TogglePlayPause,
        FetchSettled 1 (Some \<lparr>data_artist = Some ''A2'', data_title = Some ''X2''\<rparr>) 20000]
       (chip_init [])) ! 0)
     \<in> set (isUnmounted (chip_run
       [InitialMetadata (Some \<lparr>data_artist = Some ''A0'', data_title = Some ''X0''\<rparr>),
        AutoplaySettled True, TogglePlayPause, TogglePlayPause,
        FetchSettled 1 (Some \<lparr>data_artist = Some ''A2'', data_title = Some ''X2''\<rparr>) 20000]
       (chip_init []))) \<and>
   currentTrack (chip_run
       [InitialMetadata (Some \<lparr>data_artist = Some ''A0'', data_title = Some ''X0''\<rparr>),
        AutoplaySettled True, TogglePlayPause, TogglePlayPause,
        FetchSettled 1 (Some \<lparr>data_artist = Some ''A2'', data_title = Some ''X2''\<rparr>) 20000]
       (chip_init [])) = Some \<lparr>artist = ''A2'', title = ''X2''\<rparr> \<and>
   trackHistory (chip_run
       [InitialMetadata (Some \<lparr>data_artist = Some ''A0'', data_title = Some ''X0''\<rparr>),
        AutoplaySettled True, TogglePlayPause, TogglePlayPause,
        FetchSettled 1 (Some \<lparr>data_artist = Some ''A2'', data_title = Some ''X2''\<rparr>) 20000]
       (chip_init []))
     = [\<lparr>h_title = ''X0'', h_artist = ''A0'', startedAt = 19000\<rparr>] \<and>
   currentTrack (chip_run
       [InitialMetadata (Some \<lparr>data_artist = Some ''A0'', data_title = Some ''X0''\<rparr>),
        AutoplaySettled True, TogglePlayPause, TogglePlayPause,
        FetchSettled 1 (Some \<lparr>data_artist = Some ''A2'', data_title = Some ''X2''\<rparr>) 20000,
        FetchSettled 0 (Some \<lparr>data_artist = Some ''A1'', data_title = Some ''X1''\<rparr>) 30000]
       (chip_init [])) = Some \<lparr>artist = ''A1'', title = ''X1''\<rparr> \<and>
   lastTrackRef (chip_run
       [InitialMetadata (Some \<lparr>data_artist = Some ''A0'', data_title = Some ''X0''\<rparr>),
        AutoplaySettled True, TogglePlayPause, TogglePlayPause,
        FetchSettled 1 (Some \<lparr>data_artist = Some ''A2'', data_title = Some ''X2''\<rparr>) 20000,
        FetchSettled 0 (Some \<lparr>data_artist = Some ''A1'', data_title = Some ''X1''\<rparr>) 30000]
       (chip_init [])) = Some ''A1-X1'' \<and>
   trackHistory (chip_run
       [InitialMetadata (Some \<lparr>data_artist = Some ''A0'', data_title = Some ''X0''\<rparr>),
        AutoplaySettled True, TogglePlayPause, TogglePlayPause,
        FetchSettled 1 (Some \<lparr>data_artist = Some ''A2'', data_title = Some ''X2''\<rparr>) 20000,
        FetchSettled 0 (Some \<lparr>data_artist = Some ''A1'', data_title = Some ''X1''\<rparr>) 30000]
       (chip_init []))
     = [\<lparr>h_title = ''X0'', h_artist = ''A0'', startedAt = 29000\<rparr>,
        \<lparr>h_title = ''X0'', h_artist = ''A0'', startedAt = 19000\<rparr>]"
  by (simp add: chip_eval)

end
